theory Spec2Isabelle
  imports Complex_Main "HOL-Library.Word"
begin

section \<open>Message feeds controller: data model\<close>

text \<open>
  The development embeds \<^verbatim>\<open>src/Shared/messages/MessageFeedsController.cpp\<close>.
  Objects created with \<^verbatim>\<open>new\<close> whose identity matters (sockets, listeners, symbol
  styles, symbols, renderers) live in an explicit store; an address is an index into
  the store and a pointer is an optional address, \<open>None\<close> being \<^verbatim>\<open>nullptr\<close>.
\<close>

type_synonym addr = nat
type_synonym ptr = "addr option"

text \<open>
  Modelled from the spec: \<^verbatim>\<open>Message\<close> is not among the sources. A message has an
  emptiness flag, an identifier, a type and a payload; the controller reads the first three
  through \<^verbatim>\<open>isEmpty()\<close>, \<^verbatim>\<open>messageId()\<close> and \<^verbatim>\<open>messageType()\<close>.
\<close>

record Message =
  isEmpty :: bool
  messageId :: string
  messageType :: string
  payload :: string

text \<open>
  Modelled from the spec: \<^verbatim>\<open>MessagesOverlay\<close> and \<^verbatim>\<open>MessageFeed\<close> are not among the
  sources. An overlay is constructed from a geo view and a renderer and accepts routed
  messages through \<^verbatim>\<open>addMessage\<close>, recorded here as the sequence of messages it was
  called with; a feed pairs a name and a message type with its overlay.
\<close>

record MessagesOverlay =
  ov_geoView :: ptr
  ov_renderer :: addr
  ov_messages :: "Message list"

definition addMessage :: "Message \<Rightarrow> MessagesOverlay \<Rightarrow> MessagesOverlay" where
  "addMessage m ov = ov\<lparr>ov_messages := ov_messages ov @ [m]\<rparr>"

record MessageFeed =
  feedName :: string
  feedMessageType :: string
  messagesOverlay :: MessagesOverlay

text \<open>
  Modelled from the spec: \<^verbatim>\<open>LocationBroadcast\<close> is not among the sources. Its state is
  the enabled flag, the frequency, the message type, the port and the message it sent
  last (\<^verbatim>\<open>message()\<close>); its setters assign the field.
\<close>

record LocationBroadcast =
  lb_enabled :: bool
  lb_frequency :: int
  lb_messageType :: string
  lb_udpPort :: int
  lb_message :: Message

definition isEnabled :: "LocationBroadcast \<Rightarrow> bool" where
  "isEnabled b = lb_enabled b"

definition setEnabled :: "bool \<Rightarrow> LocationBroadcast \<Rightarrow> LocationBroadcast" where
  "setEnabled e b = b\<lparr>lb_enabled := e\<rparr>"

definition setMessageType :: "string \<Rightarrow> LocationBroadcast \<Rightarrow> LocationBroadcast" where
  "setMessageType t b = b\<lparr>lb_messageType := t\<rparr>"

definition setUdpPort :: "int \<Rightarrow> LocationBroadcast \<Rightarrow> LocationBroadcast" where
  "setUdpPort n b = b\<lparr>lb_udpPort := n\<rparr>"

text \<open>The values a \<^verbatim>\<open>QVariant\<close> of the configuration map can hold.\<close>

datatype QVariant = Invalid | VString string | VStringList "string list"

text \<open>The signals the controller emits, in the order of emission.\<close>

datatype Signal =
  propertyChanged string QVariant
  | locationBroadcastEnabledChanged
  | locationBroadcastFrequencyChanged

text \<open>
  The controller. \<open>this_ptr\<close> is its own address (the \<^verbatim>\<open>this\<close> handed to the objects it
  creates as their parent). \<open>connections\<close> holds one entry per connection made from a
  listener's \<^verbatim>\<open>messageReceived\<close> signal to the controller's ingestion lambda, named by the
  sending listener, in the order the connections were made. \<open>emitted\<close> is the log of the
  controller's own signals.
\<close>

record MessageFeedsController =
  this_ptr :: addr
  m_geoView :: ptr
  m_messageFeeds :: "MessageFeed list"
  m_messageListeners :: "addr list"
  m_locationBroadcast :: LocationBroadcast
  m_resourcePath :: string
  connections :: "addr list"
  emitted :: "Signal list"

section \<open>Qt strings, variants and the configuration map\<close>

text \<open>
  \<^verbatim>\<open>QString::compare(other, Qt::CaseInsensitive) == 0\<close>: equality after folding the
  letters \<open>A\<close> to \<open>Z\<close> to lower case.
\<close>

definition toLower :: "char \<Rightarrow> char" where
  "toLower ch =
     (case map_of (zip ''ABCDEFGHIJKLMNOPQRSTUVWXYZ'' ''abcdefghijklmnopqrstuvwxyz'') ch of
        None \<Rightarrow> ch
      | Some l \<Rightarrow> l)"

definition compare_CaseInsensitive :: "string \<Rightarrow> string \<Rightarrow> bool" where
  "compare_CaseInsensitive a b = (map toLower a = map toLower b)"

text \<open>
  \<^verbatim>\<open>QString::split\<close> at a one-character separator, keeping empty parts (the default):
  a string with \<open>n\<close> separators has \<open>n + 1\<close> parts, the empty string has one empty part.
\<close>

fun QString_split :: "char \<Rightarrow> string \<Rightarrow> string list" where
  "QString_split sep [] = [[]]"
| "QString_split sep (ch # s) =
     (if ch = sep then [] # QString_split sep s
      else (case QString_split sep s of
              [] \<Rightarrow> [[ch]]
            | part # parts \<Rightarrow> (ch # part) # parts))"

text \<open>
  \<^verbatim>\<open>QString::toInt()\<close> in base 10: white space around the number is ignored, a sign
  may precede the digits, and the result is 0 when the conversion fails, also when the
  value does not fit a 32-bit \<^verbatim>\<open>int\<close>. White space is what \<^verbatim>\<open>QChar::isSpace\<close> accepts
  among the characters of one byte: tab to carriage return, space, next line (133) and
  the no-break space (160).
\<close>

definition isSpace :: "char \<Rightarrow> bool" where
  "isSpace ch =
     (let n = (of_char ch :: nat)
      in (9 \<le> n \<and> n \<le> 13) \<or> n = 32 \<or> n = 133 \<or> n = 160)"

definition isDigit :: "char \<Rightarrow> bool" where
  "isDigit ch = (let n = (of_char ch :: nat) in 48 \<le> n \<and> n \<le> 57)"

definition isSign :: "char \<Rightarrow> bool" where
  "isSign ch = (ch = CHR ''-'' \<or> ch = CHR ''+'')"

definition trimmed :: "string \<Rightarrow> string" where
  "trimmed s = rev (dropWhile isSpace (rev (dropWhile isSpace s)))"

fun digitsValue :: "string \<Rightarrow> nat \<Rightarrow> nat" where
  "digitsValue [] acc = acc"
| "digitsValue (d # ds) acc = digitsValue ds (10 * acc + (of_char d - 48))"

definition toInt :: "string \<Rightarrow> int" where
  "toInt s =
     (let t = trimmed s;
          negative = (t \<noteq> [] \<and> hd t = CHR ''-'');
          digits = (if t \<noteq> [] \<and> isSign (hd t) then tl t else t);
          v = (if negative then - int (digitsValue digits 0) else int (digitsValue digits 0))
      in if digits = [] \<or> \<not> list_all isDigit digits then 0
         else if v < - (2 ^ 31) \<or> 2 ^ 31 - 1 < v then 0
         else v)"

text \<open>
  \<^verbatim>\<open>QVariant::toString\<close> and \<^verbatim>\<open>QVariant::toStringList\<close>: an invalid variant converts to
  the empty string and the empty list, a string to the list holding it, and a list to a
  string only when it has exactly one element.
\<close>

fun toString :: "QVariant \<Rightarrow> string" where
  "toString Invalid = []"
| "toString (VString s) = s"
| "toString (VStringList l) = (case l of [s] \<Rightarrow> s | _ \<Rightarrow> [])"

fun toStringList :: "QVariant \<Rightarrow> string list" where
  "toStringList Invalid = []"
| "toStringList (VString s) = [s]"
| "toStringList (VStringList l) = l"

text \<open>\<^verbatim>\<open>properties[key]\<close> on the constant map: a missing key gives an invalid variant.\<close>

definition value_of :: "(string \<rightharpoonup> QVariant) \<Rightarrow> string \<Rightarrow> QVariant" where
  "value_of properties key = (case properties key of None \<Rightarrow> Invalid | Some v \<Rightarrow> v)"

definition RESOURCE_DIRECTORY_PROPERTYNAME :: string where
  "RESOURCE_DIRECTORY_PROPERTYNAME = ''ResourceDirectory''"

definition MESSAGE_FEED_UDP_PORTS_PROPERTYNAME :: string where
  "MESSAGE_FEED_UDP_PORTS_PROPERTYNAME = ''MessageFeedUdpPorts''"

definition MESSAGE_FEEDS_PROPERTYNAME :: string where
  "MESSAGE_FEEDS_PROPERTYNAME = ''MessageFeeds''"

definition LOCATION_BROADCAST_CONFIG_PROPERTYNAME :: string where
  "LOCATION_BROADCAST_CONFIG_PROPERTYNAME = ''LocationBroadcastConfig''"

section \<open>The object store and the static style pointers\<close>

text \<open>
  The objects of the store, each with its parent. A socket records the port
  \<^verbatim>\<open>bind\<close> was called with and whether the bind succeeded; a picture marker symbol
  records the image path and the width and height once they are set. The two
  function-static style pointers of \<^verbatim>\<open>createRenderer\<close> are part of the process state.
\<close>

datatype QObject =
  QUdpSocket ptr "(16 word \<times> bool) option"
  | MessageListener addr ptr
  | DictionarySymbolStyle string string ptr
  | DictionaryRenderer ptr ptr
  | PictureMarkerSymbol string "real option" "real option" ptr
  | SimpleRenderer addr ptr

record Process =
  store :: "QObject list"
  dictionarySymbolStyleMil2525c :: ptr
  dictionarySymbolStyleMil2525d :: ptr

definition new_object :: "QObject \<Rightarrow> Process \<Rightarrow> addr \<times> Process" where
  "new_object obj p = (length (store p), p\<lparr>store := store p @ [obj]\<rparr>)"

definition setWidth :: "addr \<Rightarrow> real \<Rightarrow> Process \<Rightarrow> Process" where
  "setWidth a w p =
     p\<lparr>store := (store p)
          [a := (case store p ! a of
                   PictureMarkerSymbol img _ h parent \<Rightarrow> PictureMarkerSymbol img (Some w) h parent
                 | obj \<Rightarrow> obj)]\<rparr>"

definition setHeight :: "addr \<Rightarrow> real \<Rightarrow> Process \<Rightarrow> Process" where
  "setHeight a h p =
     p\<lparr>store := (store p)
          [a := (case store p ! a of
                   PictureMarkerSymbol img w _ parent \<Rightarrow> PictureMarkerSymbol img w (Some h) parent
                 | obj \<Rightarrow> obj)]\<rparr>"

text \<open>
  \<^verbatim>\<open>QUdpSocket::bind(quint16 port, mode)\<close>: the \<^verbatim>\<open>int\<close> argument is converted to 16
  bits. Whether the operating system grants the bind is given by \<open>env\<close>, a parameter.
\<close>

definition QUdpSocket_bind ::
  "(addr \<Rightarrow> 16 word \<Rightarrow> bool) \<Rightarrow> addr \<Rightarrow> 16 word \<Rightarrow> Process \<Rightarrow> Process" where
  "QUdpSocket_bind env udpSocket port p =
     p\<lparr>store := (store p)
          [udpSocket := (case store p ! udpSocket of
                           QUdpSocket parent _ \<Rightarrow> QUdpSocket parent (Some (port, env udpSocket port))
                         | obj \<Rightarrow> obj)]\<rparr>"

section \<open>Listener registration\<close>

text \<open>
  \<^verbatim>\<open>QObject::connect\<close> with a functor adds a connection each time it is called;
  \<^verbatim>\<open>QObject::disconnect(sender, signal, receiver, nullptr)\<close> removes every connection of
  that signal of the sender to the receiver. \<^verbatim>\<open>QList::removeOne\<close> removes the first
  occurrence only.
\<close>

definition addMessageListener :: "ptr \<Rightarrow> MessageFeedsController \<Rightarrow> MessageFeedsController" where
  "addMessageListener messageListener c =
     (case messageListener of
        None \<Rightarrow> c
      | Some l \<Rightarrow> c\<lparr>m_messageListeners := m_messageListeners c @ [l],
                     connections := connections c @ [l]\<rparr>)"

definition removeMessageListener :: "ptr \<Rightarrow> MessageFeedsController \<Rightarrow> MessageFeedsController" where
  "removeMessageListener messageListener c =
     (case messageListener of
        None \<Rightarrow> c
      | Some l \<Rightarrow> c\<lparr>m_messageListeners := remove1 l (m_messageListeners c),
                     connections := removeAll l (connections c)\<rparr>)"

section \<open>Ingestion\<close>

text \<open>
  Modelled from the spec: \<^verbatim>\<open>MessageFeedListModel::messageFeedByType\<close> is not among the
  sources; the registry is an ordered collection looked up by message type with a linear
  scan, and of two feeds of one type the one registered last is found. The result is the
  position of the feed found, \<open>None\<close> being \<^verbatim>\<open>nullptr\<close>.
\<close>

fun messageFeedByType :: "MessageFeed list \<Rightarrow> string \<Rightarrow> nat option" where
  "messageFeedByType [] t = None"
| "messageFeedByType (f # fs) t =
     (case messageFeedByType fs t of
        Some i \<Rightarrow> Some (Suc i)
      | None \<Rightarrow> if feedMessageType f = t then Some 0 else None)"

text \<open>
  The lambda connected to \<^verbatim>\<open>messageReceived\<close>. \<^verbatim>\<open>Message::create\<close> is a parameter (the
  decoder of the wire format). The lambda returns nothing; the model also reports which
  of its exits was taken.
\<close>

datatype Exit = EmptyMessage | OwnBroadcast | NoMessageFeed | AddedToFeed nat

definition messageReceived ::
  "(string \<Rightarrow> Message) \<Rightarrow> string \<Rightarrow> MessageFeedsController \<Rightarrow> Exit \<times> MessageFeedsController" where
  "messageReceived create message c =
     (let m = create message in
      if isEmpty m then (EmptyMessage, c)
      else if isEnabled (m_locationBroadcast c)
              \<and> messageId (lb_message (m_locationBroadcast c)) = messageId m
        then (OwnBroadcast, c)
      else
        (case messageFeedByType (m_messageFeeds c) (messageType m) of
           None \<Rightarrow> (NoMessageFeed, c)
         | Some i \<Rightarrow>
             (let messageFeed = m_messageFeeds c ! i in
              (AddedToFeed i,
               c\<lparr>m_messageFeeds := (m_messageFeeds c)
                    [i := messageFeed\<lparr>messagesOverlay :=
                            addMessage m (messagesOverlay messageFeed)\<rparr>]\<rparr>))))"

text \<open>
  Emitting \<^verbatim>\<open>messageReceived\<close> from a listener runs the connected lambda once per
  connection of that listener; \<open>invoke n\<close> runs it \<open>n\<close> times in sequence and collects the
  exits.
\<close>

fun invoke ::
  "(string \<Rightarrow> Message) \<Rightarrow> string \<Rightarrow> nat \<Rightarrow> MessageFeedsController
     \<Rightarrow> Exit list \<times> MessageFeedsController" where
  "invoke create message 0 c = ([], c)"
| "invoke create message (Suc n) c =
     (let r = messageReceived create message c;
          rs = invoke create message n (snd r)
      in (fst r # fst rs, snd rs))"

definition emit_messageReceived ::
  "(string \<Rightarrow> Message) \<Rightarrow> addr \<Rightarrow> string \<Rightarrow> MessageFeedsController
     \<Rightarrow> Exit list \<times> MessageFeedsController" where
  "emit_messageReceived create sender message c =
     invoke create message (count_list (connections c) sender) c"

section \<open>Broadcast switch and resource path\<close>

definition setResourcePath :: "string \<Rightarrow> MessageFeedsController \<Rightarrow> MessageFeedsController" where
  "setResourcePath resourcePath c =
     (if resourcePath = m_resourcePath c then c
      else c\<lparr>m_resourcePath := resourcePath,
             emitted := emitted c
               @ [propertyChanged RESOURCE_DIRECTORY_PROPERTYNAME (VString resourcePath)]\<rparr>)"

definition isLocationBroadcastEnabled :: "MessageFeedsController \<Rightarrow> bool" where
  "isLocationBroadcastEnabled c = isEnabled (m_locationBroadcast c)"

definition setLocationBroadcastEnabled :: "bool \<Rightarrow> MessageFeedsController \<Rightarrow> MessageFeedsController" where
  "setLocationBroadcastEnabled enabled c =
     (if isEnabled (m_locationBroadcast c) = enabled then c
      else c\<lparr>m_locationBroadcast := setEnabled enabled (m_locationBroadcast c),
             emitted := emitted c @ [locationBroadcastEnabledChanged]\<rparr>)"

section \<open>Renderers\<close>

definition createRenderer ::
  "MessageFeedsController \<Rightarrow> string \<Rightarrow> ptr \<Rightarrow> Process \<Rightarrow> addr \<times> Process" where
  "createRenderer c rendererInfo parent p =
     (if compare_CaseInsensitive rendererInfo ''mil2525c'' then
        (let p1 = (if dictionarySymbolStyleMil2525c p = None
                   then (let (style, p') =
                              new_object (DictionarySymbolStyle ''mil2525c_b2''
                                (m_resourcePath c @ ''/styles/mil2525c_b2.stylx'') parent) p
                         in p'\<lparr>dictionarySymbolStyleMil2525c := Some style\<rparr>)
                   else p)
         in new_object (DictionaryRenderer (dictionarySymbolStyleMil2525c p1) parent) p1)
      else if compare_CaseInsensitive rendererInfo ''mil2525d'' then
        (let p1 = (if dictionarySymbolStyleMil2525d p = None
                   then (let (style, p') =
                              new_object (DictionarySymbolStyle ''mil2525d''
                                (m_resourcePath c @ ''/styles/mil2525d.stylx'') parent) p
                         in p'\<lparr>dictionarySymbolStyleMil2525d := Some style\<rparr>)
                   else p)
         in new_object (DictionaryRenderer (dictionarySymbolStyleMil2525d p1) parent) p1)
      else
        (let (symbol, p1) =
               new_object (PictureMarkerSymbol ('':/Resources/icons/xhdpi/message/'' @ rendererInfo)
                 None None parent) p;
             p2 = setWidth symbol 40 p1;
             p3 = setHeight symbol 40 p2
         in new_object (SimpleRenderer symbol parent) p3))"

section \<open>Configuration\<close>

text \<open>The body of the loop over the configured ports.\<close>

definition addUdpListener ::
  "(addr \<Rightarrow> 16 word \<Rightarrow> bool) \<Rightarrow> string \<Rightarrow> MessageFeedsController \<times> Process
     \<Rightarrow> MessageFeedsController \<times> Process" where
  "addUdpListener env udpPort cp =
     (let c = fst cp;
          (udpSocket, p1) = new_object (QUdpSocket (Some (this_ptr c)) None) (snd cp);
          p2 = QUdpSocket_bind env udpSocket (word_of_int (toInt udpPort)) p1;
          (listener, p3) = new_object (MessageListener udpSocket (Some (this_ptr c))) p2
      in (addMessageListener (Some listener) c, p3))"

fun addUdpListeners ::
  "(addr \<Rightarrow> 16 word \<Rightarrow> bool) \<Rightarrow> string list \<Rightarrow> MessageFeedsController \<times> Process
     \<Rightarrow> MessageFeedsController \<times> Process" where
  "addUdpListeners env [] cp = cp"
| "addUdpListeners env (udpPort # rest) cp = addUdpListeners env rest (addUdpListener env udpPort cp)"

text \<open>
  The body of the loop over the feed entries after the check of the number of parts:
  the overlay with its renderer, the feed, and the append to the list model
  (\<^verbatim>\<open>MessageFeedListModel::append\<close> adds at the end).
\<close>

definition appendMessageFeed ::
  "string \<Rightarrow> string \<Rightarrow> string \<Rightarrow> MessageFeedsController \<times> Process
     \<Rightarrow> MessageFeedsController \<times> Process" where
  "appendMessageFeed name feedType rendererInfo cp =
     (let c = fst cp;
          (renderer, p1) = createRenderer c rendererInfo (Some (this_ptr c)) (snd cp);
          overlay = \<lparr>ov_geoView = m_geoView c, ov_renderer = renderer, ov_messages = []\<rparr>;
          feed = \<lparr>feedName = name, feedMessageType = feedType, messagesOverlay = overlay\<rparr>
      in (c\<lparr>m_messageFeeds := m_messageFeeds c @ [feed]\<rparr>, p1))"

fun addMessageFeeds ::
  "string list \<Rightarrow> MessageFeedsController \<times> Process \<Rightarrow> MessageFeedsController \<times> Process" where
  "addMessageFeeds [] cp = cp"
| "addMessageFeeds (messageFeed # rest) cp =
     (let messageFeedConfig = QString_split CHR '':'' messageFeed in
      if length messageFeedConfig \<noteq> 3 then addMessageFeeds rest cp
      else addMessageFeeds rest
             (appendMessageFeed (messageFeedConfig ! 0) (messageFeedConfig ! 1)
                (messageFeedConfig ! 2) cp))"

definition setProperties ::
  "(addr \<Rightarrow> 16 word \<Rightarrow> bool) \<Rightarrow> (string \<rightharpoonup> QVariant) \<Rightarrow> MessageFeedsController \<times> Process
     \<Rightarrow> MessageFeedsController \<times> Process" where
  "setProperties env properties cp =
     (let cp1 = (setResourcePath (toString (value_of properties RESOURCE_DIRECTORY_PROPERTYNAME))
                   (fst cp), snd cp);
          messageFeedUdpPorts = toStringList (value_of properties MESSAGE_FEED_UDP_PORTS_PROPERTYNAME);
          cp2 = addUdpListeners env messageFeedUdpPorts cp1;
          messageFeeds = toStringList (value_of properties MESSAGE_FEEDS_PROPERTYNAME);
          cp3 = addMessageFeeds messageFeeds cp2;
          locationBroadcastConfig =
            toStringList (value_of properties LOCATION_BROADCAST_CONFIG_PROPERTYNAME)
      in if length locationBroadcastConfig = 2
         then ((fst cp3)\<lparr>m_locationBroadcast :=
                   setUdpPort (toInt (locationBroadcastConfig ! 1))
                     (setMessageType (locationBroadcastConfig ! 0) (m_locationBroadcast (fst cp3)))\<rparr>,
               snd cp3)
         else cp3)"

section \<open>Predicates for stating the properties\<close>

text \<open>
  No overlay of the registry holds an empty message.
\<close>

definition overlaysFreeOfEmpty :: "MessageFeedsController \<Rightarrow> bool" where
  "overlaysFreeOfEmpty c =
     list_all (\<lambda>f. list_all (\<lambda>m. \<not> isEmpty m) (ov_messages (messagesOverlay f))) (m_messageFeeds c)"

text \<open>
  \<open>extends p p'\<close>: the store of \<open>p'\<close> begins with the store of \<open>p\<close>, and a static style
  pointer that is set in \<open>p\<close> has the same value in \<open>p'\<close>. \<open>rendererFrom p info a\<close>: the
  object at \<open>a\<close> is the renderer that \<open>createRenderer\<close> builds for \<open>info\<close>, a dictionary
  renderer on the static style of the standard named, or else a simple renderer on a
  picture marker symbol of the image \<open>info\<close>, 40 by 40. \<open>listenerFor env p l port\<close>: the
  object at \<open>l\<close> is a listener on a socket that \<^verbatim>\<open>bind\<close> was called on with the integer
  value of \<open>port\<close>. \<open>wellFormed\<close>: the entry has exactly three parts. \<open>feedFrom\<close>: the
  feed has the name, the type and the renderer of the three parts of the entry, on the
  given geo view, with no message yet.
\<close>

definition extends :: "Process \<Rightarrow> Process \<Rightarrow> bool" where
  "extends p p' =
     (length (store p) \<le> length (store p')
      \<and> take (length (store p)) (store p') = store p
      \<and> (dictionarySymbolStyleMil2525c p \<noteq> None \<longrightarrow>
            dictionarySymbolStyleMil2525c p' = dictionarySymbolStyleMil2525c p)
      \<and> (dictionarySymbolStyleMil2525d p \<noteq> None \<longrightarrow>
            dictionarySymbolStyleMil2525d p' = dictionarySymbolStyleMil2525d p))"

definition rendererFrom :: "Process \<Rightarrow> string \<Rightarrow> addr \<Rightarrow> bool" where
  "rendererFrom p rendererInfo a =
     (a < length (store p) \<and>
      (case store p ! a of
         DictionaryRenderer style _ \<Rightarrow>
           style \<noteq> None \<and>
           (if compare_CaseInsensitive rendererInfo ''mil2525c''
            then style = dictionarySymbolStyleMil2525c p
            else compare_CaseInsensitive rendererInfo ''mil2525d''
                 \<and> style = dictionarySymbolStyleMil2525d p)
       | SimpleRenderer symbol _ \<Rightarrow>
           \<not> compare_CaseInsensitive rendererInfo ''mil2525c''
           \<and> \<not> compare_CaseInsensitive rendererInfo ''mil2525d''
           \<and> symbol < length (store p)
           \<and> (case store p ! symbol of
                 PictureMarkerSymbol img w h _ \<Rightarrow>
                   img = '':/Resources/icons/xhdpi/message/'' @ rendererInfo
                   \<and> w = Some 40 \<and> h = Some 40
               | _ \<Rightarrow> False)
       | _ \<Rightarrow> False))"

definition listenerFor :: "(addr \<Rightarrow> 16 word \<Rightarrow> bool) \<Rightarrow> Process \<Rightarrow> addr \<Rightarrow> string \<Rightarrow> bool" where
  "listenerFor env p listener udpPort =
     (listener < length (store p) \<and>
      (case store p ! listener of
         MessageListener udpSocket _ \<Rightarrow>
           udpSocket < length (store p)
           \<and> (case store p ! udpSocket of
                 QUdpSocket _ b \<Rightarrow>
                   b = Some (word_of_int (toInt udpPort), env udpSocket (word_of_int (toInt udpPort)))
               | _ \<Rightarrow> False)
       | _ \<Rightarrow> False))"

text \<open>
  The addresses and the objects of the port loop started on a store of \<open>n\<close> objects: each
  entry takes two addresses, the socket at the first and the listener at the second.
\<close>

fun listenerAddrs :: "nat \<Rightarrow> string list \<Rightarrow> addr list" where
  "listenerAddrs n [] = []"
| "listenerAddrs n (udpPort # rest) = Suc n # listenerAddrs (n + 2) rest"

fun listenerObjects ::
  "(addr \<Rightarrow> 16 word \<Rightarrow> bool) \<Rightarrow> ptr \<Rightarrow> nat \<Rightarrow> string list \<Rightarrow> QObject list" where
  "listenerObjects env parent n [] = []"
| "listenerObjects env parent n (udpPort # rest) =
     QUdpSocket parent (Some (word_of_int (toInt udpPort), env n (word_of_int (toInt udpPort))))
     # MessageListener n parent
     # listenerObjects env parent (n + 2) rest"

definition wellFormed :: "string \<Rightarrow> bool" where
  "wellFormed entry = (length (QString_split CHR '':'' entry) = 3)"

definition feedFrom :: "ptr \<Rightarrow> Process \<Rightarrow> MessageFeed \<Rightarrow> string \<Rightarrow> bool" where
  "feedFrom geoView p feed entry =
     (let parts = QString_split CHR '':'' entry in
      feedName feed = parts ! 0
      \<and> feedMessageType feed = parts ! 1
      \<and> rendererFrom p (parts ! 2) (ov_renderer (messagesOverlay feed))
      \<and> ov_geoView (messagesOverlay feed) = geoView
      \<and> ov_messages (messagesOverlay feed) = [])"

section \<open>Fixtures for concrete runs\<close>

definition exampleBroadcast :: LocationBroadcast where
  "exampleBroadcast =
     \<lparr>lb_enabled = True, lb_frequency = 1000, lb_messageType = ''position'', lb_udpPort = 4001,
      lb_message = \<lparr>isEmpty = False, messageId = ''b1'', messageType = ''position'', payload = ''''\<rparr>\<rparr>"

definition exampleFeed :: MessageFeed where
  "exampleFeed =
     \<lparr>feedName = ''Position'', feedMessageType = ''position'',
      messagesOverlay = \<lparr>ov_geoView = None, ov_renderer = 0, ov_messages = []\<rparr>\<rparr>"

definition exampleController :: MessageFeedsController where
  "exampleController =
     \<lparr>this_ptr = 0, m_geoView = None, m_messageFeeds = [exampleFeed], m_messageListeners = [],
      m_locationBroadcast = exampleBroadcast, m_resourcePath = ''/data'',
      connections = [], emitted = []\<rparr>"

text \<open>
  A decoder for concrete runs: the datagram is the identifier of a message of type
  \<open>position\<close>, and the empty datagram does not parse.
\<close>

definition exampleCreate :: "string \<Rightarrow> Message" where
  "exampleCreate raw =
     \<lparr>isEmpty = (raw = []), messageId = raw, messageType = ''position'', payload = ''''\<rparr>"

text \<open>
  A process with an empty store and no style loaded, a configuration with a port entry
  that is not a number, a port entry that repeats an earlier one and a feed entry that
  has one part only, and an operating system that grants port 4000 to the first socket
  alone.
\<close>

definition exampleProcess :: Process where
  "exampleProcess = \<lparr>store = [], dictionarySymbolStyleMil2525c = None, dictionarySymbolStyleMil2525d = None\<rparr>"

definition exampleProperties :: "string \<rightharpoonup> QVariant" where
  "exampleProperties = map_of
     [(''ResourceDirectory'', VString ''/data''),
      (''MessageFeedUdpPorts'', VStringList [''4000'', ''abc'', ''4000'']),
      (''MessageFeeds'', VStringList [''Friendly:friendly:icon_a.png'', ''broken'', ''Mil:position:MIL2525C'']),
      (''LocationBroadcastConfig'', VStringList [''location'', ''4002''])]"

definition exampleEnv :: "addr \<Rightarrow> 16 word \<Rightarrow> bool" where
  "exampleEnv udpSocket port = (udpSocket = 0 \<and> port = 4000)"

definition emptyProperties :: "string \<rightharpoonup> QVariant" where
  "emptyProperties = map_of []"

definition loadedProcess :: Process where
  "loadedProcess =
     \<lparr>store = [DictionarySymbolStyle ''mil2525c_b2'' ''/data/styles/mil2525c_b2.stylx'' None,
               DictionarySymbolStyle ''mil2525d'' ''/data/styles/mil2525d.stylx'' None],
      dictionarySymbolStyleMil2525c = Some 0, dictionarySymbolStyleMil2525d = Some 1\<rparr>"

definition unfedController :: MessageFeedsController where
  "unfedController = exampleController\<lparr>m_messageFeeds := []\<rparr>"

section \<open>Auxiliary facts\<close>

lemma invoke_length: "length (fst (invoke create message n c)) = n"
  by (induction n arbitrary: c) (simp_all add: Let_def)

lemma addMessageListener_connections:
  "connections (addMessageListener (Some l) c) = connections c @ [l]"
  by (simp add: addMessageListener_def)

lemma messageFeedByType_None:
  "(messageFeedByType fs t = None) = (t \<notin> set (map feedMessageType fs))"
  by (induction fs) (auto split: option.splits)

lemma messageFeedByType_Some:
  "messageFeedByType fs t = Some i \<Longrightarrow> i < length fs \<and> feedMessageType (fs ! i) = t"
  by (induction fs arbitrary: i) (auto split: option.splits if_splits)

lemma list_all_update:
  "list_all P xs \<Longrightarrow> P y \<Longrightarrow> list_all P (xs[i := y])"
  by (induction xs arbitrary: i) (auto split: nat.splits)

lemma messageReceived_keeps_nonempty:
  assumes inv: "overlaysFreeOfEmpty c"
  shows "overlaysFreeOfEmpty (snd (messageReceived create raw c))"
proof (cases "messageReceived create raw c = (fst (messageReceived create raw c), c)")
  case True
  then have "snd (messageReceived create raw c) = c"
    by (metis snd_conv)
  with inv show ?thesis by simp
next
  case False
  then obtain i where ne: "\<not> isEmpty (create raw)"
    and look: "messageFeedByType (m_messageFeeds c) (messageType (create raw)) = Some i"
    by (auto simp: messageReceived_def Let_def split: if_splits option.splits)
  let ?f = "m_messageFeeds c ! i"
  from look have i: "i < length (m_messageFeeds c)"
    by (simp add: messageFeedByType_Some)
  from inv i have old: "list_all (\<lambda>m. \<not> isEmpty m) (ov_messages (messagesOverlay ?f))"
    by (simp add: overlaysFreeOfEmpty_def list_all_length)
  have new: "list_all (\<lambda>m. \<not> isEmpty m)
      (ov_messages (messagesOverlay (?f\<lparr>messagesOverlay := addMessage (create raw) (messagesOverlay ?f)\<rparr>)))"
    using old ne by (simp add: addMessage_def)
  have "snd (messageReceived create raw c) =
      c\<lparr>m_messageFeeds := (m_messageFeeds c)
          [i := ?f\<lparr>messagesOverlay := addMessage (create raw) (messagesOverlay ?f)\<rparr>]\<rparr>"
    using False look by (simp add: messageReceived_def Let_def split: if_splits)
  then show ?thesis
    using inv new by (simp add: overlaysFreeOfEmpty_def list_all_update)
qed

lemma invoke_keeps_nonempty:
  "overlaysFreeOfEmpty c \<Longrightarrow> overlaysFreeOfEmpty (snd (invoke create raw n c))"
  by (induction n arbitrary: c) (simp_all add: Let_def messageReceived_keeps_nonempty)

lemma extends_refl: "extends p p"
  by (simp add: extends_def)

lemma extends_trans:
  assumes "extends p q" and "extends q r"
  shows "extends p r"
proof -
  from assms have len: "length (store p) \<le> length (store q)" "length (store q) \<le> length (store r)"
    by (simp_all add: extends_def)
  from assms have tk: "take (length (store p)) (store q) = store p"
    "take (length (store q)) (store r) = store q"
    by (simp_all add: extends_def)
  have "take (length (store p)) (store r) = take (length (store p)) (take (length (store q)) (store r))"
    using len by (simp add: min_absorb1)
  also have "\<dots> = store p"
    using tk by simp
  finally have t: "take (length (store p)) (store r) = store p" .
  show ?thesis
    using assms t len by (auto simp: extends_def)
qed

lemma extends_nth:
  assumes "extends p p'" and "a < length (store p)"
  shows "store p' ! a = store p ! a"
proof -
  have "store p ! a = take (length (store p)) (store p') ! a"
    using assms(1) by (simp add: extends_def)
  also have "\<dots> = store p' ! a"
    using assms(2) by simp
  finally show ?thesis by simp
qed

lemma extends_length: "extends p p' \<Longrightarrow> a < length (store p) \<Longrightarrow> a < length (store p')"
  unfolding extends_def by simp

lemma createRenderer_mil2525c_first:
  "compare_CaseInsensitive r ''mil2525c'' \<Longrightarrow> dictionarySymbolStyleMil2525c p = None \<Longrightarrow>
   createRenderer c r parent p =
     (Suc (length (store p)),
      p\<lparr>store := store p @
            [DictionarySymbolStyle ''mil2525c_b2'' (m_resourcePath c @ ''/styles/mil2525c_b2.stylx'') parent,
             DictionaryRenderer (Some (length (store p))) parent],
        dictionarySymbolStyleMil2525c := Some (length (store p))\<rparr>)"
  by (simp add: createRenderer_def new_object_def)

lemma createRenderer_mil2525c_cached:
  "compare_CaseInsensitive r ''mil2525c'' \<Longrightarrow> dictionarySymbolStyleMil2525c p = Some s \<Longrightarrow>
   createRenderer c r parent p =
     (length (store p), p\<lparr>store := store p @ [DictionaryRenderer (Some s) parent]\<rparr>)"
  by (simp add: createRenderer_def new_object_def)

lemma createRenderer_mil2525d_first:
  "\<not> compare_CaseInsensitive r ''mil2525c'' \<Longrightarrow>
   compare_CaseInsensitive r ''mil2525d'' \<Longrightarrow> dictionarySymbolStyleMil2525d p = None \<Longrightarrow>
   createRenderer c r parent p =
     (Suc (length (store p)),
      p\<lparr>store := store p @
            [DictionarySymbolStyle ''mil2525d'' (m_resourcePath c @ ''/styles/mil2525d.stylx'') parent,
             DictionaryRenderer (Some (length (store p))) parent],
        dictionarySymbolStyleMil2525d := Some (length (store p))\<rparr>)"
  by (simp add: createRenderer_def new_object_def)

lemma createRenderer_mil2525d_cached:
  "\<not> compare_CaseInsensitive r ''mil2525c'' \<Longrightarrow>
   compare_CaseInsensitive r ''mil2525d'' \<Longrightarrow> dictionarySymbolStyleMil2525d p = Some s \<Longrightarrow>
   createRenderer c r parent p =
     (length (store p), p\<lparr>store := store p @ [DictionaryRenderer (Some s) parent]\<rparr>)"
  by (simp add: createRenderer_def new_object_def)

lemma createRenderer_picture:
  "\<not> compare_CaseInsensitive r ''mil2525c'' \<Longrightarrow> \<not> compare_CaseInsensitive r ''mil2525d'' \<Longrightarrow>
   createRenderer c r parent p =
     (Suc (length (store p)),
      p\<lparr>store := store p @
            [PictureMarkerSymbol ('':/Resources/icons/xhdpi/message/'' @ r) (Some 40) (Some 40) parent,
             SimpleRenderer (length (store p)) parent]\<rparr>)"
  by (simp add: createRenderer_def new_object_def setWidth_def setHeight_def)

lemma mil2525d_not_c:
  "compare_CaseInsensitive r ''mil2525d'' \<Longrightarrow> \<not> compare_CaseInsensitive r ''mil2525c''"
  by (simp add: compare_CaseInsensitive_def toLower_def)

lemma createRenderer_cases:
  obtains (c_first) "compare_CaseInsensitive r ''mil2525c''" "dictionarySymbolStyleMil2525c p = None"
  | (c_cached) s where "compare_CaseInsensitive r ''mil2525c''" "dictionarySymbolStyleMil2525c p = Some s"
  | (d_first) "\<not> compare_CaseInsensitive r ''mil2525c''" "compare_CaseInsensitive r ''mil2525d''"
      "dictionarySymbolStyleMil2525d p = None"
  | (d_cached) s where "\<not> compare_CaseInsensitive r ''mil2525c''" "compare_CaseInsensitive r ''mil2525d''"
      "dictionarySymbolStyleMil2525d p = Some s"
  | (picture) "\<not> compare_CaseInsensitive r ''mil2525c''" "\<not> compare_CaseInsensitive r ''mil2525d''"
  by (cases "dictionarySymbolStyleMil2525c p"; cases "dictionarySymbolStyleMil2525d p") blast+

lemma createRenderer_extends: "extends p (snd (createRenderer c r parent p))"
proof (cases r p rule: createRenderer_cases)
  case c_first
  then show ?thesis
    by (simp add: createRenderer_mil2525c_first extends_def)
next
  case (c_cached s)
  then show ?thesis
    by (simp add: createRenderer_mil2525c_cached extends_def)
next
  case d_first
  then show ?thesis
    by (simp add: createRenderer_mil2525d_first extends_def)
next
  case (d_cached s)
  then show ?thesis
    by (simp add: createRenderer_mil2525d_cached extends_def)
next
  case picture
  then show ?thesis
    by (simp add: createRenderer_picture extends_def)
qed

lemma rendererFrom_createRenderer:
  "rendererFrom (snd (createRenderer c r parent p)) r (fst (createRenderer c r parent p))"
proof (cases r p rule: createRenderer_cases)
  case c_first
  then show ?thesis
    by (simp add: createRenderer_mil2525c_first rendererFrom_def nth_append)
next
  case (c_cached s)
  then show ?thesis
    by (simp add: createRenderer_mil2525c_cached rendererFrom_def nth_append)
next
  case d_first
  then show ?thesis
    by (simp add: createRenderer_mil2525d_first rendererFrom_def nth_append)
next
  case (d_cached s)
  then show ?thesis
    by (simp add: createRenderer_mil2525d_cached rendererFrom_def nth_append)
next
  case picture
  then show ?thesis
    by (simp add: createRenderer_picture rendererFrom_def nth_append)
qed

lemma rendererFrom_extends:
  assumes "rendererFrom p r a" and "extends p p'"
  shows "rendererFrom p' r a"
proof -
  from assms(1) have a: "a < length (store p)"
    by (simp add: rendererFrom_def)
  with assms(2) have same: "store p' ! a = store p ! a" and a': "a < length (store p')"
    by (simp_all add: extends_nth extends_length)
  show ?thesis
  proof (cases "store p ! a")
    case (DictionaryRenderer style par)
    with assms show ?thesis
      using a' same by (auto simp: rendererFrom_def extends_def split: if_splits)
  next
    case (SimpleRenderer symbol par)
    with assms(1) have s: "symbol < length (store p)"
      by (simp add: rendererFrom_def)
    with assms(2) have "store p' ! symbol = store p ! symbol" "symbol < length (store p')"
      by (simp_all add: extends_nth extends_length)
    with assms(1) SimpleRenderer show ?thesis
      using a' same by (simp add: rendererFrom_def)
  qed (use assms(1) in \<open>simp_all add: rendererFrom_def\<close>)
qed


lemma listenerFor_extends:
  assumes "listenerFor env p l udpPort" and "extends p p'"
  shows "listenerFor env p' l udpPort"
proof -
  from assms(1) have l: "l < length (store p)"
    by (simp add: listenerFor_def)
  with assms(2) have same: "store p' ! l = store p ! l" and l': "l < length (store p')"
    by (simp_all add: extends_nth extends_length)
  show ?thesis
  proof (cases "store p ! l")
    case (MessageListener udpSocket par)
    with assms(1) have s: "udpSocket < length (store p)"
      by (simp add: listenerFor_def)
    with assms(2) have "store p' ! udpSocket = store p ! udpSocket" "udpSocket < length (store p')"
      by (simp_all add: extends_nth extends_length)
    with assms(1) MessageListener show ?thesis
      using l' same by (simp add: listenerFor_def)
  qed (use assms(1) in \<open>simp_all add: listenerFor_def\<close>)
qed

lemma feedFrom_extends: "feedFrom g p f e \<Longrightarrow> extends p p' \<Longrightarrow> feedFrom g p' f e"
  unfolding feedFrom_def Let_def by (blast intro: rendererFrom_extends)

lemma list_all2_feedFrom_extends:
  "list_all2 (feedFrom g p) fs es \<Longrightarrow> extends p p' \<Longrightarrow> list_all2 (feedFrom g p') fs es"
  by (erule list_all2_mono) (rule feedFrom_extends)

lemma list_all2_listenerFor_extends:
  "list_all2 (listenerFor env p) ls ps \<Longrightarrow> extends p p' \<Longrightarrow> list_all2 (listenerFor env p') ls ps"
  by (erule list_all2_mono) (rule listenerFor_extends)

lemma appendMessageFeed_fst:
  "fst (appendMessageFeed n t r cp) =
     (fst cp)\<lparr>m_messageFeeds := m_messageFeeds (fst cp) @
        [\<lparr>feedName = n, feedMessageType = t,
          messagesOverlay =
            \<lparr>ov_geoView = m_geoView (fst cp),
             ov_renderer = fst (createRenderer (fst cp) r (Some (this_ptr (fst cp))) (snd cp)),
             ov_messages = []\<rparr>\<rparr>]\<rparr>"
  by (simp add: appendMessageFeed_def Let_def case_prod_beta)

lemma appendMessageFeed_snd:
  "snd (appendMessageFeed n t r cp) =
     snd (createRenderer (fst cp) r (Some (this_ptr (fst cp))) (snd cp))"
  by (simp add: appendMessageFeed_def Let_def case_prod_beta)

lemma addMessageFeeds_fold:
  "addMessageFeeds entries cp =
     fold (\<lambda>entry. appendMessageFeed (QString_split CHR '':'' entry ! 0)
             (QString_split CHR '':'' entry ! 1) (QString_split CHR '':'' entry ! 2))
       (filter wellFormed entries) cp"
  by (induction entries arbitrary: cp) (simp_all add: Let_def wellFormed_def)

lemma addMessageFeeds_spec:
  "\<exists>news. fst (addMessageFeeds entries cp) =
            (fst cp)\<lparr>m_messageFeeds := m_messageFeeds (fst cp) @ news\<rparr>
     \<and> list_all2 (feedFrom (m_geoView (fst cp)) (snd (addMessageFeeds entries cp))) news
           (filter wellFormed entries)
     \<and> extends (snd cp) (snd (addMessageFeeds entries cp))"
proof (induction entries arbitrary: cp)
  case Nil
  show ?case by (simp add: extends_refl)
next
  case (Cons e es)
  show ?case
  proof (cases "wellFormed e")
    case False
    then show ?thesis
      using Cons.IH [of cp] by (simp add: wellFormed_def Let_def)
  next
    case True
    define name where "name = QString_split CHR '':'' e ! 0"
    define feedType where "feedType = QString_split CHR '':'' e ! 1"
    define rendererInfo where "rendererInfo = QString_split CHR '':'' e ! 2"
    define cp1 where "cp1 = appendMessageFeed name feedType rendererInfo cp"
    define r where "r = createRenderer (fst cp) rendererInfo (Some (this_ptr (fst cp))) (snd cp)"
    define f where "f = \<lparr>feedName = name, feedMessageType = feedType,
          messagesOverlay =
            \<lparr>ov_geoView = m_geoView (fst cp), ov_renderer = fst r, ov_messages = []\<rparr>\<rparr>"
    define out where "out = addMessageFeeds es cp1"
    have run: "addMessageFeeds (e # es) cp = out"
      using True
      by (simp add: wellFormed_def Let_def out_def cp1_def name_def feedType_def rendererInfo_def)
    have c1: "fst cp1 = (fst cp)\<lparr>m_messageFeeds := m_messageFeeds (fst cp) @ [f]\<rparr>"
      unfolding cp1_def f_def r_def by (rule appendMessageFeed_fst)
    have p1: "snd cp1 = snd r"
      unfolding cp1_def r_def by (rule appendMessageFeed_snd)
    have "rendererFrom (snd r) rendererInfo (fst r)"
      unfolding r_def by (rule rendererFrom_createRenderer)
    then have f1: "feedFrom (m_geoView (fst cp)) (snd cp1) f e"
      by (simp add: feedFrom_def Let_def p1 f_def name_def feedType_def rendererInfo_def)
    have e1: "extends (snd cp) (snd cp1)"
      unfolding p1 r_def by (rule createRenderer_extends)
    from Cons.IH [of cp1] obtain news where
      n1: "fst out = (fst cp1)\<lparr>m_messageFeeds := m_messageFeeds (fst cp1) @ news\<rparr>"
      and n2: "list_all2 (feedFrom (m_geoView (fst cp1)) (snd out)) news (filter wellFormed es)"
      and n3: "extends (snd cp1) (snd out)"
      unfolding out_def by blast
    have g: "m_geoView (fst cp1) = m_geoView (fst cp)"
      by (simp add: c1)
    have a: "fst out = (fst cp)\<lparr>m_messageFeeds := m_messageFeeds (fst cp) @ (f # news)\<rparr>"
      by (simp add: n1 c1)
    have b: "list_all2 (feedFrom (m_geoView (fst cp)) (snd out)) (f # news)
        (filter wellFormed (e # es))"
      using True n2 feedFrom_extends [OF f1 n3] by (simp add: g)
    have c: "extends (snd cp) (snd out)"
      using e1 n3 by (rule extends_trans)
    show ?thesis
      unfolding run using a b c by blast
  qed
qed

lemma addUdpListener_fst:
  "fst (addUdpListener env udpPort cp) =
     (fst cp)\<lparr>m_messageListeners := m_messageListeners (fst cp) @ [Suc (length (store (snd cp)))],
              connections := connections (fst cp) @ [Suc (length (store (snd cp)))]\<rparr>"
  by (simp add: addUdpListener_def Let_def case_prod_beta new_object_def QUdpSocket_bind_def
      addMessageListener_def)

lemma addUdpListener_snd:
  "snd (addUdpListener env udpPort cp) =
     (snd cp)\<lparr>store := store (snd cp) @
        [QUdpSocket (Some (this_ptr (fst cp)))
           (Some (word_of_int (toInt udpPort),
                  env (length (store (snd cp))) (word_of_int (toInt udpPort)))),
         MessageListener (length (store (snd cp))) (Some (this_ptr (fst cp)))]\<rparr>"
  by (simp add: addUdpListener_def Let_def case_prod_beta new_object_def QUdpSocket_bind_def)

lemma addUdpListeners_spec:
  "\<exists>news. fst (addUdpListeners env ports cp) =
            (fst cp)\<lparr>m_messageListeners := m_messageListeners (fst cp) @ news,
                     connections := connections (fst cp) @ news\<rparr>
     \<and> list_all2 (listenerFor env (snd (addUdpListeners env ports cp))) news ports
     \<and> extends (snd cp) (snd (addUdpListeners env ports cp))"
proof (induction ports arbitrary: cp)
  case Nil
  show ?case by (simp add: extends_refl)
next
  case (Cons udpPort rest)
  let ?cp1 = "addUdpListener env udpPort cp"
  let ?l = "Suc (length (store (snd cp)))"
  let ?out = "addUdpListeners env rest ?cp1"
  have c1: "fst ?cp1 = (fst cp)\<lparr>m_messageListeners := m_messageListeners (fst cp) @ [?l],
              connections := connections (fst cp) @ [?l]\<rparr>"
    by (rule addUdpListener_fst)
  have l1: "listenerFor env (snd ?cp1) ?l udpPort"
    by (simp add: addUdpListener_snd listenerFor_def nth_append)
  have e1: "extends (snd cp) (snd ?cp1)"
    by (simp add: addUdpListener_snd extends_def)
  from Cons.IH [of ?cp1] obtain news where
    n1: "fst ?out = (fst ?cp1)\<lparr>m_messageListeners := m_messageListeners (fst ?cp1) @ news,
                     connections := connections (fst ?cp1) @ news\<rparr>"
    and n2: "list_all2 (listenerFor env (snd ?out)) news rest"
    and n3: "extends (snd ?cp1) (snd ?out)"
    by blast
  have a: "fst ?out = (fst cp)\<lparr>m_messageListeners := m_messageListeners (fst cp) @ (?l # news),
                     connections := connections (fst cp) @ (?l # news)\<rparr>"
    by (simp add: n1 c1)
  have b: "list_all2 (listenerFor env (snd ?out)) (?l # news) (udpPort # rest)"
    using n2 listenerFor_extends [OF l1 n3] by simp
  have c: "extends (snd cp) (snd ?out)"
    using e1 n3 by (rule extends_trans)
  show ?case
    using a b c by (simp del: list_all2_Cons) blast
qed

lemma setResourcePath_frame:
  "m_messageListeners (setResourcePath path c) = m_messageListeners c"
  "connections (setResourcePath path c) = connections c"
  "m_messageFeeds (setResourcePath path c) = m_messageFeeds c"
  "m_geoView (setResourcePath path c) = m_geoView c"
  "m_locationBroadcast (setResourcePath path c) = m_locationBroadcast c"
  by (simp_all add: setResourcePath_def)

lemma setProperties_spec:
  fixes env properties c p
  defines "ports \<equiv> toStringList (value_of properties MESSAGE_FEED_UDP_PORTS_PROPERTYNAME)"
    and "entries \<equiv> toStringList (value_of properties MESSAGE_FEEDS_PROPERTYNAME)"
    and "cfg \<equiv> toStringList (value_of properties LOCATION_BROADCAST_CONFIG_PROPERTYNAME)"
    and "out \<equiv> setProperties env properties (c, p)"
  shows "\<exists>nl nf.
     m_messageListeners (fst out) = m_messageListeners c @ nl
     \<and> connections (fst out) = connections c @ nl
     \<and> m_messageFeeds (fst out) = m_messageFeeds c @ nf
     \<and> m_locationBroadcast (fst out) =
          (if length cfg = 2
           then setUdpPort (toInt (cfg ! 1)) (setMessageType (cfg ! 0) (m_locationBroadcast c))
           else m_locationBroadcast c)
     \<and> list_all2 (listenerFor env (snd out)) nl ports
     \<and> list_all2 (feedFrom (m_geoView c) (snd out)) nf (filter wellFormed entries)
     \<and> extends p (snd out)"
proof -
  define c1 where "c1 = setResourcePath (toString (value_of properties RESOURCE_DIRECTORY_PROPERTYNAME)) c"
  define cp2 where "cp2 = addUdpListeners env ports (c1, p)"
  define cp3 where "cp3 = addMessageFeeds entries cp2"
  define b where "b = (if length cfg = 2
           then setUdpPort (toInt (cfg ! 1)) (setMessageType (cfg ! 0) (m_locationBroadcast (fst cp3)))
           else m_locationBroadcast (fst cp3))"
  have out: "out = ((fst cp3)\<lparr>m_locationBroadcast := b\<rparr>, snd cp3)"
    by (simp add: out_def setProperties_def Let_def cp3_def cp2_def c1_def b_def
        ports_def entries_def cfg_def)
  from addUdpListeners_spec [of env ports "(c1, p)"] obtain nl where
    l1: "fst cp2 = c1\<lparr>m_messageListeners := m_messageListeners c1 @ nl,
                     connections := connections c1 @ nl\<rparr>"
    and l2: "list_all2 (listenerFor env (snd cp2)) nl ports"
    and l3: "extends p (snd cp2)"
    unfolding cp2_def by auto
  from addMessageFeeds_spec [of entries cp2] obtain nf where
    f1: "fst cp3 = (fst cp2)\<lparr>m_messageFeeds := m_messageFeeds (fst cp2) @ nf\<rparr>"
    and f2: "list_all2 (feedFrom (m_geoView (fst cp2)) (snd cp3)) nf (filter wellFormed entries)"
    and f3: "extends (snd cp2) (snd cp3)"
    unfolding cp3_def by auto
  have g: "m_geoView (fst cp2) = m_geoView c"
    by (simp add: l1 c1_def setResourcePath_frame)
  have a1: "m_messageListeners (fst out) = m_messageListeners c @ nl"
    by (simp add: out f1 l1 c1_def setResourcePath_frame)
  have a2: "connections (fst out) = connections c @ nl"
    by (simp add: out f1 l1 c1_def setResourcePath_frame)
  have a3: "m_messageFeeds (fst out) = m_messageFeeds c @ nf"
    by (simp add: out f1 l1 c1_def setResourcePath_frame)
  have a4: "m_locationBroadcast (fst out) =
          (if length cfg = 2
           then setUdpPort (toInt (cfg ! 1)) (setMessageType (cfg ! 0) (m_locationBroadcast c))
           else m_locationBroadcast c)"
    by (simp add: out b_def f1 l1 c1_def setResourcePath_frame)
  have a5: "list_all2 (listenerFor env (snd out)) nl ports"
    using list_all2_listenerFor_extends [OF l2 f3] by (simp add: out)
  have a6: "list_all2 (feedFrom (m_geoView c) (snd out)) nf (filter wellFormed entries)"
    using f2 by (simp add: out g)
  have a7: "extends p (snd out)"
    using extends_trans [OF l3 f3] by (simp add: out)
  show ?thesis
    using a1 a2 a3 a4 a5 a6 a7 by blast
qed

lemma addUdpListeners_exact:
  "addUdpListeners env ports cp =
     ((fst cp)\<lparr>m_messageListeners :=
                 m_messageListeners (fst cp) @ listenerAddrs (length (store (snd cp))) ports,
              connections := connections (fst cp) @ listenerAddrs (length (store (snd cp))) ports\<rparr>,
      (snd cp)\<lparr>store := store (snd cp)
                 @ listenerObjects env (Some (this_ptr (fst cp))) (length (store (snd cp))) ports\<rparr>)"
proof (induction ports arbitrary: cp)
  case Nil
  show ?case by simp
next
  case (Cons udpPort rest)
  define cp1 where "cp1 = addUdpListener env udpPort cp"
  have c1: "fst cp1 =
      (fst cp)\<lparr>m_messageListeners := m_messageListeners (fst cp) @ [Suc (length (store (snd cp)))],
               connections := connections (fst cp) @ [Suc (length (store (snd cp)))]\<rparr>"
    unfolding cp1_def by (rule addUdpListener_fst)
  have p1: "snd cp1 =
      (snd cp)\<lparr>store := store (snd cp) @
        [QUdpSocket (Some (this_ptr (fst cp)))
           (Some (word_of_int (toInt udpPort),
                  env (length (store (snd cp))) (word_of_int (toInt udpPort)))),
         MessageListener (length (store (snd cp))) (Some (this_ptr (fst cp)))]\<rparr>"
    unfolding cp1_def by (rule addUdpListener_snd)
  have len: "length (store (snd cp1)) = length (store (snd cp)) + 2"
    by (simp add: p1)
  have par: "this_ptr (fst cp1) = this_ptr (fst cp)"
    by (simp add: c1)
  have "addUdpListeners env (udpPort # rest) cp = addUdpListeners env rest cp1"
    by (simp add: cp1_def)
  also have "\<dots> =
     ((fst cp1)\<lparr>m_messageListeners :=
                 m_messageListeners (fst cp1) @ listenerAddrs (length (store (snd cp1))) rest,
              connections := connections (fst cp1) @ listenerAddrs (length (store (snd cp1))) rest\<rparr>,
      (snd cp1)\<lparr>store := store (snd cp1)
                 @ listenerObjects env (Some (this_ptr (fst cp1))) (length (store (snd cp1))) rest\<rparr>)"
    by (rule Cons.IH)
  also have "\<dots> =
     ((fst cp)\<lparr>m_messageListeners :=
                 m_messageListeners (fst cp) @ listenerAddrs (length (store (snd cp))) (udpPort # rest),
              connections :=
                 connections (fst cp) @ listenerAddrs (length (store (snd cp))) (udpPort # rest)\<rparr>,
      (snd cp)\<lparr>store := store (snd cp)
                 @ listenerObjects env (Some (this_ptr (fst cp))) (length (store (snd cp)))
                     (udpPort # rest)\<rparr>)"
    unfolding len par by (simp add: c1 p1)
  finally show ?case .
qed

lemma listenerAddrs_above: "l \<in> set (listenerAddrs n ports) \<Longrightarrow> n < l"
  by (induction ports arbitrary: n) fastforce+

lemma listenerAddrs_distinct: "distinct (listenerAddrs n ports)"
proof (induction ports arbitrary: n)
  case Nil
  show ?case by simp
next
  case (Cons udpPort rest)
  have "Suc n \<notin> set (listenerAddrs (n + 2) rest)"
    using listenerAddrs_above [of "Suc n" "n + 2" rest] by auto
  with Cons.IH [of "n + 2"] show ?case by simp
qed

lemma listenerAddrs_length: "length (listenerAddrs n ports) = length ports"
  by (induction ports arbitrary: n) simp_all

lemma listenerObjects_length: "length (listenerObjects env parent n ports) = 2 * length ports"
  by (induction ports arbitrary: n) simp_all

lemma setProperties_listeners:
  fixes env properties c p
  defines "ports \<equiv> toStringList (value_of properties MESSAGE_FEED_UDP_PORTS_PROPERTYNAME)"
    and "out \<equiv> setProperties env properties (c, p)"
  shows "m_messageListeners (fst out) = m_messageListeners c @ listenerAddrs (length (store p)) ports"
    and "take (length (store p) + 2 * length ports) (store (snd out)) =
           store p @ listenerObjects env (Some (this_ptr c)) (length (store p)) ports"
proof -
  define c1 where "c1 = setResourcePath (toString (value_of properties RESOURCE_DIRECTORY_PROPERTYNAME)) c"
  define cp2 where "cp2 = addUdpListeners env ports (c1, p)"
  define cp3 where "cp3 = addMessageFeeds
      (toStringList (value_of properties MESSAGE_FEEDS_PROPERTYNAME)) cp2"
  have par: "this_ptr c1 = this_ptr c" and ls: "m_messageListeners c1 = m_messageListeners c"
    by (simp_all add: c1_def setResourcePath_def)
  have f2: "m_messageListeners (fst cp2) =
      m_messageListeners c @ listenerAddrs (length (store p)) ports"
    unfolding cp2_def addUdpListeners_exact by (simp add: ls)
  have s2: "store (snd cp2) =
      store p @ listenerObjects env (Some (this_ptr c)) (length (store p)) ports"
    unfolding cp2_def addUdpListeners_exact by (simp add: par)
  from addMessageFeeds_spec [of "toStringList (value_of properties MESSAGE_FEEDS_PROPERTYNAME)" cp2]
  obtain nf where
    f3: "fst cp3 = (fst cp2)\<lparr>m_messageFeeds := m_messageFeeds (fst cp2) @ nf\<rparr>"
    and e3: "extends (snd cp2) (snd cp3)"
    unfolding cp3_def by blast
  have fo: "m_messageListeners (fst out) = m_messageListeners (fst cp3)"
    and so: "snd out = snd cp3"
    by (simp_all add: out_def setProperties_def Let_def cp3_def cp2_def c1_def ports_def)
  show "m_messageListeners (fst out) = m_messageListeners c @ listenerAddrs (length (store p)) ports"
    by (simp add: fo f3 f2)
  have "length (store (snd cp2)) = length (store p) + 2 * length ports"
    by (simp add: s2 listenerObjects_length)
  moreover have "take (length (store (snd cp2))) (store (snd cp3)) = store (snd cp2)"
    using e3 by (simp add: extends_def)
  ultimately show "take (length (store p) + 2 * length ports) (store (snd out)) =
           store p @ listenerObjects env (Some (this_ptr c)) (length (store p)) ports"
    by (simp add: so s2)
qed

lemma QString_split_nonempty: "QString_split sep s \<noteq> []"
  by (induction s) (auto split: list.splits)

lemma QString_split_length: "length (QString_split sep s) = Suc (count_list s sep)"
proof (induction s)
  case Nil
  show ?case by simp
next
  case (Cons ch s)
  obtain part parts where "QString_split sep s = part # parts"
    using QString_split_nonempty [of sep s] by (cases "QString_split sep s") auto
  with Cons show ?case by auto
qed

lemma dropWhile_keeps: "x \<in> set xs \<Longrightarrow> \<not> P x \<Longrightarrow> x \<in> set (dropWhile P xs)"
  by (induction xs) auto

lemma trimmed_keeps: "ch \<in> set s \<Longrightarrow> \<not> isSpace ch \<Longrightarrow> ch \<in> set (trimmed s)"
  by (simp add: trimmed_def dropWhile_keeps)

lemma toInt_not_numeric:
  assumes "ch \<in> set s" "\<not> isDigit ch" "\<not> isSpace ch" "\<not> isSign ch"
  shows "toInt s = 0"
proof -
  define t where "t = trimmed s"
  define digits where "digits = (if t \<noteq> [] \<and> isSign (hd t) then tl t else t)"
  from assms have t: "ch \<in> set t"
    by (simp add: t_def trimmed_keeps)
  have "ch \<in> set digits"
  proof (cases "t \<noteq> [] \<and> isSign (hd t)")
    case True
    with assms(4) have "ch \<noteq> hd t" by auto
    with t True show ?thesis
      by (cases t) (auto simp: digits_def)
  next
    case False
    then have "digits = t" by (auto simp: digits_def)
    with t show ?thesis by simp
  qed
  with assms(2) have "\<not> list_all isDigit digits"
    by (auto simp: list_all_iff)
  then have "\<not> list_all isDigit
      (if trimmed s \<noteq> [] \<and> isSign (hd (trimmed s)) then tl (trimmed s) else trimmed s)"
    unfolding digits_def t_def .
  then show ?thesis
    unfolding toInt_def Let_def by (simp only: simp_thms if_True not_False_eq_True)
qed

section \<open>Listener registration and delivery\<close>

text \<open>
  C9: adding or removing the null listener leaves the whole controller state (listener
  list, connections and everything else) unchanged.
\<close>

theorem null_listener_noop:
  "addMessageListener None c = c \<and> removeMessageListener None c = c"
  by (simp add: addMessageListener_def removeMessageListener_def)

text \<open>
  C1, as the code has it: adding the same listener twice appends it twice to the listener
  list and connects the ingestion lambda twice, so a datagram emitted by that listener
  runs the ingestion path two times more than before the two calls, twice when the
  listener was not connected before.
\<close>

theorem double_registration_delivers_twice:
  "length (fst (emit_messageReceived create l raw
       (addMessageListener (Some l) (addMessageListener (Some l) c))))
     = count_list (connections c) l + 2
   \<and> m_messageListeners (addMessageListener (Some l) (addMessageListener (Some l) c))
       = m_messageListeners c @ [l, l]
   \<and> connections (addMessageListener (Some l) (addMessageListener (Some l) c))
       = connections c @ [l, l]"
  unfolding emit_messageReceived_def
  by (simp only: invoke_length) (simp add: addMessageListener_def)

text \<open>
  C1 as stated fails: with listener 7 added twice to a controller without connections, one
  datagram runs the ingestion path twice, and the overlay of the feed receives the message
  twice.
\<close>

theorem double_registration_counterexample:
  "length (fst (emit_messageReceived exampleCreate 7 ''m1''
       (addMessageListener (Some 7) (addMessageListener (Some 7) exampleController)))) \<noteq> 1
   \<and> fst (emit_messageReceived exampleCreate 7 ''m1''
       (addMessageListener (Some 7) (addMessageListener (Some 7) exampleController)))
        = [AddedToFeed 0, AddedToFeed 0]
   \<and> length (ov_messages (messagesOverlay (hd (m_messageFeeds
        (snd (emit_messageReceived exampleCreate 7 ''m1''
          (addMessageListener (Some 7) (addMessageListener (Some 7) exampleController)))))))) = 2"
  by code_simp

section \<open>Ingestion\<close>

text \<open>
  C3: a datagram that parses to an empty message leaves the lambda at its first exit,
  before the check against the own broadcast and before the lookup of the feed, and the
  controller is unchanged. No run of the lambda, and no emission of a datagram to all
  connections of a listener, puts an empty message into an overlay.
\<close>

theorem empty_message_dropped:
  "(isEmpty (create raw) \<longrightarrow> messageReceived create raw c = (EmptyMessage, c))
   \<and> (overlaysFreeOfEmpty c \<longrightarrow>
        overlaysFreeOfEmpty (snd (messageReceived create raw c))
        \<and> overlaysFreeOfEmpty (snd (emit_messageReceived create l raw c)))"
  by (simp add: messageReceived_keeps_nonempty invoke_keeps_nonempty emit_messageReceived_def)
     (simp add: messageReceived_def)

theorem empty_message_dropped_witness:
  "isEmpty (exampleCreate [])
   \<and> messageReceived exampleCreate [] exampleController = (EmptyMessage, exampleController)
   \<and> overlaysFreeOfEmpty exampleController
   \<and> overlaysFreeOfEmpty (snd (messageReceived exampleCreate ''m1'' exampleController))"
proof -
  have e: "isEmpty (exampleCreate [])"
    by (simp add: exampleCreate_def)
  have f: "overlaysFreeOfEmpty exampleController"
    by (simp add: overlaysFreeOfEmpty_def exampleController_def exampleFeed_def)
  have a: "messageReceived exampleCreate [] exampleController = (EmptyMessage, exampleController)"
    using empty_message_dropped [of exampleCreate "[]" exampleController 0] e by blast
  have b: "overlaysFreeOfEmpty (snd (messageReceived exampleCreate ''m1'' exampleController))"
    using empty_message_dropped [of exampleCreate "''m1''" exampleController 0] f by blast
  show ?thesis
    using e f a b by blast
qed

text \<open>
  C2: for a datagram that parses to a non-empty message, the lambda leaves at the exit for
  the own broadcast exactly when the location broadcast is enabled and the identifier of
  the message is the identifier of the broadcast's message; the controller is then
  unchanged, whatever feeds are registered. Otherwise the message goes to the feed found
  for its type: it is appended to the overlay of that feed.
\<close>

theorem own_broadcast_suppressed:
  "\<not> isEmpty (create raw) \<Longrightarrow>
   ((fst (messageReceived create raw c) = OwnBroadcast) =
      (isLocationBroadcastEnabled c
       \<and> messageId (create raw) = messageId (lb_message (m_locationBroadcast c))))
   \<and> (isLocationBroadcastEnabled c
        \<and> messageId (create raw) = messageId (lb_message (m_locationBroadcast c))
       \<longrightarrow> messageReceived create raw c = (OwnBroadcast, c))
   \<and> (\<not> (isLocationBroadcastEnabled c
            \<and> messageId (create raw) = messageId (lb_message (m_locationBroadcast c)))
        \<and> messageFeedByType (m_messageFeeds c) (messageType (create raw)) = Some i
       \<longrightarrow> messageReceived create raw c =
              (AddedToFeed i,
               c\<lparr>m_messageFeeds := (m_messageFeeds c)
                   [i := (m_messageFeeds c ! i)\<lparr>messagesOverlay :=
                       addMessage (create raw) (messagesOverlay (m_messageFeeds c ! i))\<rparr>]\<rparr>))"
  by (auto simp: messageReceived_def isLocationBroadcastEnabled_def Let_def split: option.splits)

theorem own_broadcast_suppressed_witness:
  "\<not> isEmpty (exampleCreate ''b1'')
   \<and> isLocationBroadcastEnabled exampleController
   \<and> messageId (exampleCreate ''b1'') = messageId (lb_message (m_locationBroadcast exampleController))
   \<and> messageReceived exampleCreate ''b1'' exampleController = (OwnBroadcast, exampleController)
   \<and> \<not> isEmpty (exampleCreate ''b2'')
   \<and> messageId (exampleCreate ''b2'') \<noteq> messageId (lb_message (m_locationBroadcast exampleController))
   \<and> messageType (exampleCreate ''b2'') = messageType (exampleCreate ''b1'')
   \<and> messageFeedByType (m_messageFeeds exampleController) (messageType (exampleCreate ''b2'')) = Some 0
   \<and> fst (messageReceived exampleCreate ''b2'' exampleController) = AddedToFeed 0"
proof -
  have n1: "\<not> isEmpty (exampleCreate ''b1'')" and n2: "\<not> isEmpty (exampleCreate ''b2'')"
    by (simp_all add: exampleCreate_def)
  have en: "isLocationBroadcastEnabled exampleController"
    by (simp add: isLocationBroadcastEnabled_def isEnabled_def exampleController_def
        exampleBroadcast_def)
  have i1: "messageId (exampleCreate ''b1'') = messageId (lb_message (m_locationBroadcast exampleController))"
    by (simp add: exampleCreate_def exampleController_def exampleBroadcast_def)
  have i2: "messageId (exampleCreate ''b2'') \<noteq> messageId (lb_message (m_locationBroadcast exampleController))"
    by (simp add: exampleCreate_def exampleController_def exampleBroadcast_def)
  have t: "messageType (exampleCreate ''b2'') = messageType (exampleCreate ''b1'')"
    by (simp add: exampleCreate_def)
  have look: "messageFeedByType (m_messageFeeds exampleController) (messageType (exampleCreate ''b2'')) = Some 0"
    by (simp add: exampleCreate_def exampleController_def exampleFeed_def)
  have a: "messageReceived exampleCreate ''b1'' exampleController = (OwnBroadcast, exampleController)"
    using own_broadcast_suppressed [of exampleCreate "''b1''" exampleController 0] n1 en i1
    by blast
  have "messageReceived exampleCreate ''b2'' exampleController =
      (AddedToFeed 0,
       exampleController\<lparr>m_messageFeeds := (m_messageFeeds exampleController)
         [0 := (m_messageFeeds exampleController ! 0)\<lparr>messagesOverlay :=
            addMessage (exampleCreate ''b2'')
              (messagesOverlay (m_messageFeeds exampleController ! 0))\<rparr>]\<rparr>)"
    using own_broadcast_suppressed [of exampleCreate "''b2''" exampleController 0] n2 i2 look
    by blast
  then have b: "fst (messageReceived exampleCreate ''b2'' exampleController) = AddedToFeed 0"
    by simp
  show ?thesis
    using n1 en i1 a n2 i2 t look b by blast
qed

text \<open>
  C8: a non-empty message that is not the own broadcast and whose type is the type of no
  feed of the registry leaves the lambda at the exit after the lookup; the controller,
  with its overlays and its emitted signals, is unchanged.
\<close>

theorem unrouted_type_dropped:
  "\<not> isEmpty (create raw) \<Longrightarrow>
   \<not> (isLocationBroadcastEnabled c
        \<and> messageId (create raw) = messageId (lb_message (m_locationBroadcast c))) \<Longrightarrow>
   messageType (create raw) \<notin> set (map feedMessageType (m_messageFeeds c)) \<Longrightarrow>
   messageReceived create raw c = (NoMessageFeed, c)"
  using messageFeedByType_None [of "m_messageFeeds c" "messageType (create raw)"]
  by (auto simp: messageReceived_def isLocationBroadcastEnabled_def Let_def split: option.splits)

theorem unrouted_type_dropped_witness:
  "\<not> isEmpty (exampleCreate ''m2'')
   \<and> \<not> (isLocationBroadcastEnabled unfedController
          \<and> messageId (exampleCreate ''m2'') = messageId (lb_message (m_locationBroadcast unfedController)))
   \<and> messageType (exampleCreate ''m2'') \<notin> set (map feedMessageType (m_messageFeeds unfedController))
   \<and> messageReceived exampleCreate ''m2'' unfedController = (NoMessageFeed, unfedController)"
proof -
  have n: "\<not> isEmpty (exampleCreate ''m2'')"
    by (simp add: exampleCreate_def)
  have s: "\<not> (isLocationBroadcastEnabled unfedController
          \<and> messageId (exampleCreate ''m2'') = messageId (lb_message (m_locationBroadcast unfedController)))"
    by (simp add: exampleCreate_def unfedController_def exampleController_def exampleBroadcast_def)
  have f: "messageType (exampleCreate ''m2'') \<notin> set (map feedMessageType (m_messageFeeds unfedController))"
    by (simp add: unfedController_def)
  show ?thesis
    using unrouted_type_dropped [of exampleCreate "''m2''" unfedController] n s f by blast
qed

section \<open>The broadcast switch\<close>

text \<open>
  C6: setting the broadcast switch to the state it already has changes nothing and emits
  nothing; setting it to the opposite state changes the broadcast state and appends
  exactly one \<open>locationBroadcastEnabledChanged\<close> to the emitted signals.
\<close>

theorem setLocationBroadcastEnabled_notifies_once:
  "(isLocationBroadcastEnabled c = b \<longrightarrow> setLocationBroadcastEnabled b c = c)
   \<and> (isLocationBroadcastEnabled c \<noteq> b \<longrightarrow>
        isLocationBroadcastEnabled (setLocationBroadcastEnabled b c) = b
        \<and> emitted (setLocationBroadcastEnabled b c) = emitted c @ [locationBroadcastEnabledChanged]
        \<and> setLocationBroadcastEnabled b c =
            c\<lparr>m_locationBroadcast := (m_locationBroadcast c)\<lparr>lb_enabled := b\<rparr>,
              emitted := emitted c @ [locationBroadcastEnabledChanged]\<rparr>)"
  by (simp add: setLocationBroadcastEnabled_def isLocationBroadcastEnabled_def isEnabled_def
      setEnabled_def)

theorem setLocationBroadcastEnabled_notifies_once_witness:
  "isLocationBroadcastEnabled exampleController = True
   \<and> setLocationBroadcastEnabled True exampleController = exampleController
   \<and> isLocationBroadcastEnabled exampleController \<noteq> False
   \<and> isLocationBroadcastEnabled (setLocationBroadcastEnabled False exampleController) = False
   \<and> emitted (setLocationBroadcastEnabled False exampleController)
       = [locationBroadcastEnabledChanged]"
proof -
  have en: "isLocationBroadcastEnabled exampleController = True"
    by (simp add: isLocationBroadcastEnabled_def isEnabled_def exampleController_def
        exampleBroadcast_def)
  have em: "emitted exampleController = []"
    by (simp add: exampleController_def)
  have same: "setLocationBroadcastEnabled True exampleController = exampleController"
    using setLocationBroadcastEnabled_notifies_once [of exampleController True] en by blast
  have ne: "isLocationBroadcastEnabled exampleController \<noteq> False"
    using en by simp
  have flip: "isLocationBroadcastEnabled (setLocationBroadcastEnabled False exampleController) = False
      \<and> emitted (setLocationBroadcastEnabled False exampleController)
          = emitted exampleController @ [locationBroadcastEnabledChanged]"
    using setLocationBroadcastEnabled_notifies_once [of exampleController False] ne by blast
  show ?thesis
    using en same ne flip by (simp add: em)
qed

section \<open>Renderers\<close>

text \<open>
  C7: for a specification equal to \<open>mil2525c\<close> or \<open>mil2525d\<close> up to case, the first
  resolution (static pointer null) constructs the style of that standard, stores it in
  the static pointer and returns a dictionary renderer on it; a resolution that finds the
  static pointer set constructs no style and returns a dictionary renderer on the very
  object the pointer names; no call of \<open>createRenderer\<close> changes a static pointer that is
  set. Every other specification gives, on each call, a new simple renderer on a new
  picture marker symbol of width and height 40, and leaves the static pointers alone.
\<close>

theorem createRenderer_caches_styles:
  "(compare_CaseInsensitive r ''mil2525c'' \<and> dictionarySymbolStyleMil2525c p = None \<longrightarrow>
      createRenderer c r parent p =
        (Suc (length (store p)),
         p\<lparr>store := store p @
               [DictionarySymbolStyle ''mil2525c_b2''
                  (m_resourcePath c @ ''/styles/mil2525c_b2.stylx'') parent,
                DictionaryRenderer (Some (length (store p))) parent],
           dictionarySymbolStyleMil2525c := Some (length (store p))\<rparr>))
   \<and> (compare_CaseInsensitive r ''mil2525c'' \<and> dictionarySymbolStyleMil2525c p = Some s \<longrightarrow>
      createRenderer c r parent p =
        (length (store p), p\<lparr>store := store p @ [DictionaryRenderer (Some s) parent]\<rparr>))
   \<and> (compare_CaseInsensitive r ''mil2525d'' \<and> dictionarySymbolStyleMil2525d p = None \<longrightarrow>
      createRenderer c r parent p =
        (Suc (length (store p)),
         p\<lparr>store := store p @
               [DictionarySymbolStyle ''mil2525d''
                  (m_resourcePath c @ ''/styles/mil2525d.stylx'') parent,
                DictionaryRenderer (Some (length (store p))) parent],
           dictionarySymbolStyleMil2525d := Some (length (store p))\<rparr>))
   \<and> (compare_CaseInsensitive r ''mil2525d'' \<and> dictionarySymbolStyleMil2525d p = Some s \<longrightarrow>
      createRenderer c r parent p =
        (length (store p), p\<lparr>store := store p @ [DictionaryRenderer (Some s) parent]\<rparr>))
   \<and> (\<not> compare_CaseInsensitive r ''mil2525c'' \<and> \<not> compare_CaseInsensitive r ''mil2525d'' \<longrightarrow>
      createRenderer c r parent p =
        (Suc (length (store p)),
         p\<lparr>store := store p @
               [PictureMarkerSymbol ('':/Resources/icons/xhdpi/message/'' @ r)
                  (Some 40) (Some 40) parent,
                SimpleRenderer (length (store p)) parent]\<rparr>))
   \<and> (dictionarySymbolStyleMil2525c p = Some s \<longrightarrow>
      dictionarySymbolStyleMil2525c (snd (createRenderer c r parent p)) = Some s)
   \<and> (dictionarySymbolStyleMil2525d p = Some s \<longrightarrow>
      dictionarySymbolStyleMil2525d (snd (createRenderer c r parent p)) = Some s)"
proof -
  have keep: "extends p (snd (createRenderer c r parent p))"
    by (rule createRenderer_extends)
  have kc: "dictionarySymbolStyleMil2525c p = Some s \<longrightarrow>
      dictionarySymbolStyleMil2525c (snd (createRenderer c r parent p)) = Some s"
    using keep by (simp add: extends_def)
  have kd: "dictionarySymbolStyleMil2525d p = Some s \<longrightarrow>
      dictionarySymbolStyleMil2525d (snd (createRenderer c r parent p)) = Some s"
    using keep by (simp add: extends_def)
  show ?thesis
    using kc kd createRenderer_mil2525c_first [of r p c parent]
      createRenderer_mil2525c_cached [of r p s c parent]
      createRenderer_mil2525d_first [of r p c parent]
      createRenderer_mil2525d_cached [of r p s c parent]
      createRenderer_picture [of r c parent p]
      mil2525d_not_c [of r]
    by blast
qed

theorem createRenderer_caches_styles_witness:
  "compare_CaseInsensitive ''MIL2525C'' ''mil2525c''
   \<and> dictionarySymbolStyleMil2525c exampleProcess = None
   \<and> createRenderer exampleController ''MIL2525C'' None exampleProcess =
       (1, \<lparr>store = [DictionarySymbolStyle ''mil2525c_b2'' ''/data/styles/mil2525c_b2.stylx'' None,
                     DictionaryRenderer (Some 0) None],
            dictionarySymbolStyleMil2525c = Some 0, dictionarySymbolStyleMil2525d = None\<rparr>)
   \<and> dictionarySymbolStyleMil2525c loadedProcess = Some 0
   \<and> createRenderer exampleController ''MIL2525C'' None loadedProcess =
       (2, loadedProcess\<lparr>store := store loadedProcess @ [DictionaryRenderer (Some 0) None]\<rparr>)
   \<and> compare_CaseInsensitive ''Mil2525D'' ''mil2525d''
   \<and> dictionarySymbolStyleMil2525d exampleProcess = None
   \<and> fst (createRenderer exampleController ''Mil2525D'' None exampleProcess) = 1
   \<and> dictionarySymbolStyleMil2525d loadedProcess = Some 1
   \<and> createRenderer exampleController ''Mil2525D'' None loadedProcess =
       (2, loadedProcess\<lparr>store := store loadedProcess @ [DictionaryRenderer (Some 1) None]\<rparr>)
   \<and> \<not> compare_CaseInsensitive ''icon_a.png'' ''mil2525c''
   \<and> \<not> compare_CaseInsensitive ''icon_a.png'' ''mil2525d''
   \<and> createRenderer exampleController ''icon_a.png'' None loadedProcess =
       (3, loadedProcess\<lparr>store := store loadedProcess @
             [PictureMarkerSymbol '':/Resources/icons/xhdpi/message/icon_a.png'' (Some 40) (Some 40) None,
              SimpleRenderer 2 None]\<rparr>)
   \<and> dictionarySymbolStyleMil2525c (snd (createRenderer exampleController ''icon_a.png'' None loadedProcess)) = Some 0
   \<and> dictionarySymbolStyleMil2525d (snd (createRenderer exampleController ''icon_a.png'' None loadedProcess)) = Some 1"
proof -
  have c1: "compare_CaseInsensitive ''MIL2525C'' ''mil2525c''"
    and d1: "compare_CaseInsensitive ''Mil2525D'' ''mil2525d''"
    and n1: "\<not> compare_CaseInsensitive ''icon_a.png'' ''mil2525c''"
    and n2: "\<not> compare_CaseInsensitive ''icon_a.png'' ''mil2525d''"
    by (simp_all add: compare_CaseInsensitive_def toLower_def)
  have e1: "dictionarySymbolStyleMil2525c exampleProcess = None"
    and e2: "dictionarySymbolStyleMil2525d exampleProcess = None"
    by (simp_all add: exampleProcess_def)
  have l1: "dictionarySymbolStyleMil2525c loadedProcess = Some 0"
    and l2: "dictionarySymbolStyleMil2525d loadedProcess = Some 1"
    by (simp_all add: loadedProcess_def)
  have len: "length (store exampleProcess) = 0" "length (store loadedProcess) = 2"
    by (simp_all add: exampleProcess_def loadedProcess_def)
  have path: "m_resourcePath exampleController = ''/data''"
    by (simp add: exampleController_def)
  have a: "createRenderer exampleController ''MIL2525C'' None exampleProcess =
        (Suc (length (store exampleProcess)),
         exampleProcess\<lparr>store := store exampleProcess @
               [DictionarySymbolStyle ''mil2525c_b2''
                  (m_resourcePath exampleController @ ''/styles/mil2525c_b2.stylx'') None,
                DictionaryRenderer (Some (length (store exampleProcess))) None],
           dictionarySymbolStyleMil2525c := Some (length (store exampleProcess))\<rparr>)"
    using createRenderer_caches_styles [where r = "''MIL2525C''" and p = exampleProcess and c = exampleController and parent = None and s = 0]
      c1 e1 by blast
  have b: "createRenderer exampleController ''MIL2525C'' None loadedProcess =
        (length (store loadedProcess),
         loadedProcess\<lparr>store := store loadedProcess @ [DictionaryRenderer (Some 0) None]\<rparr>)"
    using createRenderer_caches_styles [where r = "''MIL2525C''" and p = loadedProcess and c = exampleController and parent = None and s = 0]
      c1 l1 by blast
  have c: "createRenderer exampleController ''Mil2525D'' None exampleProcess =
        (Suc (length (store exampleProcess)),
         exampleProcess\<lparr>store := store exampleProcess @
               [DictionarySymbolStyle ''mil2525d''
                  (m_resourcePath exampleController @ ''/styles/mil2525d.stylx'') None,
                DictionaryRenderer (Some (length (store exampleProcess))) None],
           dictionarySymbolStyleMil2525d := Some (length (store exampleProcess))\<rparr>)"
    using createRenderer_caches_styles [where r = "''Mil2525D''" and p = exampleProcess and c = exampleController and parent = None and s = 0]
      d1 e2 by blast
  have d: "createRenderer exampleController ''Mil2525D'' None loadedProcess =
        (length (store loadedProcess),
         loadedProcess\<lparr>store := store loadedProcess @ [DictionaryRenderer (Some 1) None]\<rparr>)"
    using createRenderer_caches_styles [where r = "''Mil2525D''" and p = loadedProcess and c = exampleController and parent = None and s = 1]
      d1 l2 by blast
  have e: "createRenderer exampleController ''icon_a.png'' None loadedProcess =
        (Suc (length (store loadedProcess)),
         loadedProcess\<lparr>store := store loadedProcess @
               [PictureMarkerSymbol ('':/Resources/icons/xhdpi/message/'' @ ''icon_a.png'')
                  (Some 40) (Some 40) None,
                SimpleRenderer (length (store loadedProcess)) None]\<rparr>)"
    using createRenderer_caches_styles [where r = "''icon_a.png''" and p = loadedProcess and c = exampleController and parent = None and s = 0]
      n1 n2 by blast
  have f: "dictionarySymbolStyleMil2525c
      (snd (createRenderer exampleController ''icon_a.png'' None loadedProcess)) = Some 0"
    using createRenderer_caches_styles [where r = "''icon_a.png''" and p = loadedProcess and c = exampleController and parent = None and s = 0]
      l1 by blast
  have g: "dictionarySymbolStyleMil2525d
      (snd (createRenderer exampleController ''icon_a.png'' None loadedProcess)) = Some 1"
    using createRenderer_caches_styles [where r = "''icon_a.png''" and p = loadedProcess and c = exampleController and parent = None and s = 1]
      l2 by blast
  have a': "createRenderer exampleController ''MIL2525C'' None exampleProcess =
       (1, \<lparr>store = [DictionarySymbolStyle ''mil2525c_b2'' ''/data/styles/mil2525c_b2.stylx'' None,
                     DictionaryRenderer (Some 0) None],
            dictionarySymbolStyleMil2525c = Some 0, dictionarySymbolStyleMil2525d = None\<rparr>)"
    unfolding a by (simp add: exampleProcess_def path)
  have b': "createRenderer exampleController ''MIL2525C'' None loadedProcess =
       (2, loadedProcess\<lparr>store := store loadedProcess @ [DictionaryRenderer (Some 0) None]\<rparr>)"
    unfolding b by (simp add: len)
  have c': "fst (createRenderer exampleController ''Mil2525D'' None exampleProcess) = 1"
    unfolding c by (simp add: len)
  have d': "createRenderer exampleController ''Mil2525D'' None loadedProcess =
       (2, loadedProcess\<lparr>store := store loadedProcess @ [DictionaryRenderer (Some 1) None]\<rparr>)"
    unfolding d by (simp add: len)
  have e': "createRenderer exampleController ''icon_a.png'' None loadedProcess =
       (3, loadedProcess\<lparr>store := store loadedProcess @
             [PictureMarkerSymbol '':/Resources/icons/xhdpi/message/icon_a.png'' (Some 40) (Some 40) None,
              SimpleRenderer 2 None]\<rparr>)"
    unfolding e by (simp add: len)
  show ?thesis
    using c1 e1 a' l1 b' d1 e2 c' l2 d' n1 n2 e' f g by blast
qed

section \<open>Configuration\<close>

text \<open>
  C4: after \<open>setProperties\<close> the registry is the registry before followed by one feed per
  entry of the feed list that has exactly three parts, in the order of the entries; the
  feed of an entry has the first part as name, the second as type and the renderer built
  from the third. An entry with another number of parts adds no feed, wherever it stands
  in the list.
\<close>

theorem malformed_feed_entries_skipped:
  "(let entries = toStringList (value_of properties MESSAGE_FEEDS_PROPERTYNAME);
        out = setProperties env properties (c, p);
        news = drop (length (m_messageFeeds c)) (m_messageFeeds (fst out))
    in m_messageFeeds (fst out) = m_messageFeeds c @ news
       \<and> length news = length (filter wellFormed entries)
       \<and> list_all2 (feedFrom (m_geoView c) (snd out)) news (filter wellFormed entries))"
proof -
  from setProperties_spec [of env properties c p] obtain nf where
    a: "m_messageFeeds (fst (setProperties env properties (c, p))) = m_messageFeeds c @ nf"
    and b: "list_all2 (feedFrom (m_geoView c) (snd (setProperties env properties (c, p)))) nf
       (filter wellFormed (toStringList (value_of properties MESSAGE_FEEDS_PROPERTYNAME)))"
    by blast
  from b have "length nf
      = length (filter wellFormed (toStringList (value_of properties MESSAGE_FEEDS_PROPERTYNAME)))"
    by (rule list_all2_lengthD)
  with a b show ?thesis
    by (simp add: Let_def)
qed

theorem malformed_feed_entries_skipped_witness:
  "filter wellFormed (toStringList (value_of exampleProperties MESSAGE_FEEDS_PROPERTYNAME))
     = [''Friendly:friendly:icon_a.png'', ''Mil:position:MIL2525C'']
   \<and> length (m_messageFeeds
        (fst (setProperties exampleEnv exampleProperties (exampleController, exampleProcess)))) = 3
   \<and> map feedName (m_messageFeeds
        (fst (setProperties exampleEnv exampleProperties (exampleController, exampleProcess))))
       = [''Position'', ''Friendly'', ''Mil'']"
proof -
  have f: "filter wellFormed (toStringList (value_of exampleProperties MESSAGE_FEEDS_PROPERTYNAME))
     = [''Friendly:friendly:icon_a.png'', ''Mil:position:MIL2525C'']"
    by (simp add: wellFormed_def value_of_def exampleProperties_def MESSAGE_FEEDS_PROPERTYNAME_def)
  have old: "m_messageFeeds exampleController = [exampleFeed]"
    by (simp add: exampleController_def)
  define news where "news = drop (length (m_messageFeeds exampleController))
      (m_messageFeeds (fst (setProperties exampleEnv exampleProperties (exampleController, exampleProcess))))"
  have spec: "m_messageFeeds (fst (setProperties exampleEnv exampleProperties (exampleController, exampleProcess)))
        = m_messageFeeds exampleController @ news
      \<and> length news = length (filter wellFormed
           (toStringList (value_of exampleProperties MESSAGE_FEEDS_PROPERTYNAME)))
      \<and> list_all2 (feedFrom (m_geoView exampleController)
           (snd (setProperties exampleEnv exampleProperties (exampleController, exampleProcess))))
           news (filter wellFormed (toStringList (value_of exampleProperties MESSAGE_FEEDS_PROPERTYNAME)))"
    using malformed_feed_entries_skipped [of exampleProperties exampleEnv exampleController exampleProcess]
    by (simp add: Let_def news_def)
  then obtain f1 f2 where n: "news = [f1, f2]"
    and f1: "feedFrom (m_geoView exampleController)
           (snd (setProperties exampleEnv exampleProperties (exampleController, exampleProcess)))
           f1 ''Friendly:friendly:icon_a.png''"
    and f2: "feedFrom (m_geoView exampleController)
           (snd (setProperties exampleEnv exampleProperties (exampleController, exampleProcess)))
           f2 ''Mil:position:MIL2525C''"
    unfolding f by (auto simp: list_all2_Cons2)
  from f1 have n1: "feedName f1 = ''Friendly''"
    by (simp add: feedFrom_def)
  from f2 have n2: "feedName f2 = ''Mil''"
    by (simp add: feedFrom_def)
  have all: "m_messageFeeds (fst (setProperties exampleEnv exampleProperties (exampleController, exampleProcess)))
        = [exampleFeed, f1, f2]"
    using spec by (simp add: n old)
  show ?thesis
    unfolding all using f n1 n2 by (simp add: exampleFeed_def)
qed

text \<open>
  C5: when the list of the broadcast configuration has a length other than 2,
  \<open>setProperties\<close> leaves the location broadcast as it was; when the length is 2, the message
  type of the broadcast is the first element and its port the integer value of the second,
  and nothing else of the broadcast changes.
\<close>

theorem locationBroadcastConfig_arity:
  "(let cfg = toStringList (value_of properties LOCATION_BROADCAST_CONFIG_PROPERTYNAME);
        b = m_locationBroadcast (fst (setProperties env properties (c, p)))
    in (length cfg \<noteq> 2 \<longrightarrow> b = m_locationBroadcast c)
       \<and> (length cfg = 2 \<longrightarrow>
            lb_messageType b = cfg ! 0 \<and> lb_udpPort b = toInt (cfg ! 1)
            \<and> b = (m_locationBroadcast c)\<lparr>lb_messageType := cfg ! 0, lb_udpPort := toInt (cfg ! 1)\<rparr>))"
proof -
  from setProperties_spec [of env properties c p] have
    "m_locationBroadcast (fst (setProperties env properties (c, p))) =
       (if length (toStringList (value_of properties LOCATION_BROADCAST_CONFIG_PROPERTYNAME)) = 2
        then setUdpPort
               (toInt (toStringList (value_of properties LOCATION_BROADCAST_CONFIG_PROPERTYNAME) ! 1))
               (setMessageType
                  (toStringList (value_of properties LOCATION_BROADCAST_CONFIG_PROPERTYNAME) ! 0)
                  (m_locationBroadcast c))
        else m_locationBroadcast c)"
    by blast
  then show ?thesis
    by (simp add: Let_def setUdpPort_def setMessageType_def)
qed

theorem locationBroadcastConfig_arity_witness:
  "length (toStringList (value_of exampleProperties LOCATION_BROADCAST_CONFIG_PROPERTYNAME)) = 2
   \<and> lb_messageType (m_locationBroadcast
        (fst (setProperties exampleEnv exampleProperties (exampleController, exampleProcess))))
       = ''location''
   \<and> lb_udpPort (m_locationBroadcast
        (fst (setProperties exampleEnv exampleProperties (exampleController, exampleProcess))))
       = 4002
   \<and> length (toStringList (value_of emptyProperties LOCATION_BROADCAST_CONFIG_PROPERTYNAME)) \<noteq> 2
   \<and> m_locationBroadcast
        (fst (setProperties exampleEnv emptyProperties (exampleController, exampleProcess)))
       = m_locationBroadcast exampleController"
proof -
  have cfg: "toStringList (value_of exampleProperties LOCATION_BROADCAST_CONFIG_PROPERTYNAME)
      = [''location'', ''4002'']"
    by (simp add: value_of_def exampleProperties_def LOCATION_BROADCAST_CONFIG_PROPERTYNAME_def)
  have none: "toStringList (value_of emptyProperties LOCATION_BROADCAST_CONFIG_PROPERTYNAME) = []"
    by (simp add: value_of_def emptyProperties_def)
  have port: "toInt ''4002'' = 4002"
    by (simp add: toInt_def trimmed_def isSpace_def isSign_def isDigit_def)
  have a: "lb_messageType (m_locationBroadcast
        (fst (setProperties exampleEnv exampleProperties (exampleController, exampleProcess))))
       = ''location''
     \<and> lb_udpPort (m_locationBroadcast
        (fst (setProperties exampleEnv exampleProperties (exampleController, exampleProcess))))
       = 4002"
    using locationBroadcastConfig_arity [of exampleProperties exampleEnv exampleController exampleProcess]
    by (simp add: Let_def cfg port)
  have b: "m_locationBroadcast
        (fst (setProperties exampleEnv emptyProperties (exampleController, exampleProcess)))
       = m_locationBroadcast exampleController"
    using locationBroadcastConfig_arity [of emptyProperties exampleEnv exampleController exampleProcess]
    by (simp add: Let_def none)
  show ?thesis
    using a b by (simp add: cfg none)
qed

text \<open>
  C10: \<open>setProperties\<close> appends one listener to the listener list, and one connection,
  for each entry of the port list. The listeners are new and distinct objects: for each
  entry, in order, the store grows by a socket and by a listener on that socket, and the
  address of that listener is the one appended. \<^verbatim>\<open>bind\<close> was called on the socket of an
  entry with the integer value of the entry, whatever the result of the bind; an entry
  with a character that is neither a digit, a sign nor white space has the integer
  value 0.
\<close>

theorem one_listener_per_port_entry:
  "(let ports = toStringList (value_of properties MESSAGE_FEED_UDP_PORTS_PROPERTYNAME);
        out = setProperties env properties (c, p);
        news = drop (length (m_messageListeners c)) (m_messageListeners (fst out))
    in m_messageListeners (fst out) = m_messageListeners c @ news
       \<and> connections (fst out) = connections c @ news
       \<and> length news = length ports
       \<and> list_all2 (listenerFor env (snd out)) news ports
       \<and> news = listenerAddrs (length (store p)) ports
       \<and> distinct news
       \<and> list_all (\<lambda>l. length (store p) \<le> l) news
       \<and> take (length (store p) + 2 * length ports) (store (snd out)) =
            store p @ listenerObjects env (Some (this_ptr c)) (length (store p)) ports)
   \<and> ((\<exists>ch \<in> set udpPort. \<not> isDigit ch \<and> \<not> isSpace ch \<and> \<not> isSign ch) \<longrightarrow> toInt udpPort = 0)"
proof -
  define ports where "ports = toStringList (value_of properties MESSAGE_FEED_UDP_PORTS_PROPERTYNAME)"
  define out where "out = setProperties env properties (c, p)"
  define news where "news = drop (length (m_messageListeners c)) (m_messageListeners (fst out))"
  from setProperties_spec [of env properties c p] obtain nl where
    a: "m_messageListeners (fst out) = m_messageListeners c @ nl"
    and b: "connections (fst out) = connections c @ nl"
    and d: "list_all2 (listenerFor env (snd out)) nl ports"
    unfolding out_def ports_def by blast
  have nl: "nl = news"
    by (simp add: news_def a)
  have e: "m_messageListeners (fst out) = m_messageListeners c @ listenerAddrs (length (store p)) ports"
    and f: "take (length (store p) + 2 * length ports) (store (snd out)) =
            store p @ listenerObjects env (Some (this_ptr c)) (length (store p)) ports"
    unfolding out_def ports_def by (rule setProperties_listeners)+
  have g: "news = listenerAddrs (length (store p)) ports"
    by (simp add: news_def e)
  have h: "distinct news"
    unfolding g by (rule listenerAddrs_distinct)
  have i: "list_all (\<lambda>l. length (store p) \<le> l) news"
    unfolding g list_all_iff using listenerAddrs_above [of _ "length (store p)" ports]
    by (auto intro: less_imp_le)
  have j: "length news = length ports"
    unfolding g by (rule listenerAddrs_length)
  have first: "m_messageListeners (fst out) = m_messageListeners c @ news
       \<and> connections (fst out) = connections c @ news
       \<and> length news = length ports
       \<and> list_all2 (listenerFor env (snd out)) news ports
       \<and> news = listenerAddrs (length (store p)) ports
       \<and> distinct news
       \<and> list_all (\<lambda>l. length (store p) \<le> l) news
       \<and> take (length (store p) + 2 * length ports) (store (snd out)) =
            store p @ listenerObjects env (Some (this_ptr c)) (length (store p)) ports"
    using a b d f g h i j unfolding nl by blast
  have second: "(\<exists>ch \<in> set udpPort. \<not> isDigit ch \<and> \<not> isSpace ch \<and> \<not> isSign ch) \<longrightarrow> toInt udpPort = 0"
    using toInt_not_numeric [of _ udpPort] by blast
  from first second show ?thesis
    unfolding Let_def news_def out_def ports_def ..
qed

theorem one_listener_per_port_entry_witness:
  "toStringList (value_of exampleProperties MESSAGE_FEED_UDP_PORTS_PROPERTYNAME)
     = [''4000'', ''abc'', ''4000'']
   \<and> m_messageListeners
        (fst (setProperties exampleEnv exampleProperties (exampleController, exampleProcess)))
       = [1, 3, 5]
   \<and> take 6 (store
        (snd (setProperties exampleEnv exampleProperties (exampleController, exampleProcess))))
       = [QUdpSocket (Some 0) (Some (4000, True)), MessageListener 0 (Some 0),
          QUdpSocket (Some 0) (Some (0, False)), MessageListener 2 (Some 0),
          QUdpSocket (Some 0) (Some (4000, False)), MessageListener 4 (Some 0)]
   \<and> (\<exists>ch \<in> set ''abc''. \<not> isDigit ch \<and> \<not> isSpace ch \<and> \<not> isSign ch)
   \<and> toInt ''abc'' = 0"
proof -
  have ports: "toStringList (value_of exampleProperties MESSAGE_FEED_UDP_PORTS_PROPERTYNAME)
      = [''4000'', ''abc'', ''4000'']"
    by (simp add: value_of_def exampleProperties_def MESSAGE_FEED_UDP_PORTS_PROPERTYNAME_def)
  have old: "m_messageListeners exampleController = []" "this_ptr exampleController = 0"
    "store exampleProcess = []"
    by (simp_all add: exampleController_def exampleProcess_def)
  have ch: "\<exists>ch \<in> set ''abc''. \<not> isDigit ch \<and> \<not> isSpace ch \<and> \<not> isSign ch"
    by (simp add: isDigit_def isSpace_def isSign_def)
  have p1: "toInt ''4000'' = 4000"
    by (simp add: toInt_def trimmed_def isSpace_def isSign_def isDigit_def)
  note inst = one_listener_per_port_entry
    [of exampleProperties exampleEnv exampleController exampleProcess "''abc''"]
  have b: "toInt ''abc'' = 0"
    using inst ch by blast
  have a: "m_messageListeners
        (fst (setProperties exampleEnv exampleProperties (exampleController, exampleProcess)))
       = [1, 3, 5]"
    using inst by (simp add: Let_def ports old)
  have s: "take 6 (store
        (snd (setProperties exampleEnv exampleProperties (exampleController, exampleProcess))))
       = [QUdpSocket (Some 0) (Some (4000, True)), MessageListener 0 (Some 0),
          QUdpSocket (Some 0) (Some (0, False)), MessageListener 2 (Some 0),
          QUdpSocket (Some 0) (Some (4000, False)), MessageListener 4 (Some 0)]"
    using inst by (simp add: Let_def ports old p1 b exampleEnv_def)
  show ?thesis
    using ports a s ch b by blast
qed

end
